theory Spec2Isabelle
  imports Main
begin

section \<open>The bounded store\<close>

subsection \<open>Go values and the records that are persisted\<close>

text \<open>
  The three Go types that occur in the persisted structs. An \<open>int64\<close> is held as an
  \<open>int\<close>: the program only stores and compares these numbers, it never does arithmetic
  on them.
\<close>

datatype go_value = GoString string | GoInt64 int | GoBool bool

text \<open>The struct \<open>Message\<close> of the message file, field for field.\<close>

record Message =
  Type :: string
  ID :: int
  Timestamp :: int
  ChatJID :: string
  ChatName :: string
  SenderJID :: string
  SenderName :: string
  IsGroup :: bool
  IsMuted :: bool
  IsReplyToMe :: bool
  Text :: string

text \<open>
  The struct \<open>Call\<close> of \<open>calls.go\<close>. Its fields \<open>ID\<close>, \<open>Timestamp\<close> and \<open>IsGroup\<close>
  carry the prefix \<open>Call_\<close> here, since a record field is a constant of the theory.
\<close>

record Call =
  Call_ID :: int
  Call_Timestamp :: int
  CallID :: string
  CallerJID :: string
  CallerName :: string
  Call_IsGroup :: bool
  GroupJID :: string
  GroupName :: string

text \<open>
  What \<open>reflect\<close> shows of a struct value: for each field in declaration order, the
  value of its \<open>json\<close> tag and the value of the field.
\<close>

type_synonym struct_fields = "(string \<times> go_value) list"

definition Message_fields :: "Message \<Rightarrow> struct_fields" where
  "Message_fields m =
    [(''type'', GoString (Type m)),
     (''id'', GoInt64 (ID m)),
     (''timestamp'', GoInt64 (Timestamp m)),
     (''chat_jid'', GoString (ChatJID m)),
     (''chat_name'', GoString (ChatName m)),
     (''sender_jid'', GoString (SenderJID m)),
     (''sender_name'', GoString (SenderName m)),
     (''is_group'', GoBool (IsGroup m)),
     (''is_muted'', GoBool (IsMuted m)),
     (''is_reply_to_me'', GoBool (IsReplyToMe m)),
     (''text'', GoString (Text m))]"

definition Call_fields :: "Call \<Rightarrow> struct_fields" where
  "Call_fields c =
    [(''id'', GoInt64 (Call_ID c)),
     (''timestamp'', GoInt64 (Call_Timestamp c)),
     (''call_id'', GoString (CallID c)),
     (''caller_jid'', GoString (CallerJID c)),
     (''caller_name'', GoString (CallerName c)),
     (''is_group'', GoBool (Call_IsGroup c)),
     (''group_jid'', GoString (GroupJID c)),
     (''group_name'', GoString (GroupName c))]"

text \<open>
  \<open>buildInsertParams\<close>: the loop over the fields skips a field whose tag is empty or
  \<open>id\<close> and appends the tag, a placeholder and the value of every other field.
\<close>

fun buildInsertParams :: "struct_fields \<Rightarrow> string list \<times> string list \<times> go_value list" where
  "buildInsertParams [] = ([], [], [])"
| "buildInsertParams ((jsonTag, v) # fs) =
    (case buildInsertParams fs of (columns, placeholders, vals) \<Rightarrow>
       if jsonTag = [] \<or> jsonTag = ''id'' then (columns, placeholders, vals)
       else (jsonTag # columns, ''?'' # placeholders, v # vals))"

subsection \<open>The storage engine\<close>

text \<open>
  The tables of \<open>messages.db\<close> as the statements of the program see them. A table has a
  name, its declared columns other than \<open>id\<close>, its rows, and the largest \<open>id\<close> it has
  ever given out (\<open>AUTOINCREMENT\<close>). A row is its \<open>id\<close> and one cell per declared column.
  Every declared column of the two tables is \<open>NOT NULL\<close>; a column may have a default.
\<close>

datatype sql_type = SqlINTEGER | SqlTEXT

datatype sql_value = SqlInt int | SqlStr string

record sql_column =
  col_name :: string
  col_type :: sql_type
  col_default :: "sql_value option"

type_synonym sql_row = "int \<times> (string \<times> sql_value) list"

record sql_table =
  tbl_name :: string
  tbl_columns :: "sql_column list"
  tbl_rows :: "sql_row list"
  tbl_seq :: int

text \<open>How the driver binds a Go argument: a \<open>bool\<close> becomes the integer 1 or 0.\<close>

fun sql_bind :: "go_value \<Rightarrow> sql_value" where
  "sql_bind (GoString s) = SqlStr s"
| "sql_bind (GoInt64 i) = SqlInt i"
| "sql_bind (GoBool b) = SqlInt (if b then 1 else 0)"

fun sql_has_type :: "sql_type \<Rightarrow> sql_value \<Rightarrow> bool" where
  "sql_has_type SqlINTEGER (SqlInt i) = True"
| "sql_has_type SqlTEXT (SqlStr s) = True"
| "sql_has_type t v = False"

text \<open>
  The cells of a new row, column by column: the bound value when the statement names the
  column, the column's default otherwise, and a constraint failure when there is neither.
  A value whose type differs from the declared type of its column would be converted by
  the engine; the program never binds such a value to a column that exists, and the model
  reports it as an error of its own.
\<close>

fun sql_cells :: "string \<Rightarrow> sql_column list \<Rightarrow> (string \<times> sql_value) list
    \<Rightarrow> string + (string \<times> sql_value) list" where
  "sql_cells tn [] binds = Inr []"
| "sql_cells tn (c # cs) binds =
    (case (case map_of binds (col_name c) of
             Some v \<Rightarrow> if sql_has_type (col_type c) v then Inr v
                       else Inl (''conversion not modelled: '' @ tn @ ''.'' @ col_name c)
           | None \<Rightarrow> (case col_default c of
                        Some d \<Rightarrow> Inr d
                      | None \<Rightarrow> Inl (''NOT NULL constraint failed: '' @ tn @ ''.'' @ col_name c)))
     of Inl e \<Rightarrow> Inl e
      | Inr v \<Rightarrow> (case sql_cells tn cs binds of
                    Inl e \<Rightarrow> Inl e
                  | Inr vs \<Rightarrow> Inr ((col_name c, v) # vs)))"

text \<open>
  \<open>AUTOINCREMENT\<close>: the next \<open>id\<close> is one more than the largest \<open>id\<close> that has ever
  been in the table, whether the row still exists or not.
\<close>

definition sql_next_id :: "sql_table \<Rightarrow> int" where
  "sql_next_id t = max (tbl_seq t) (fold max (map fst (tbl_rows t)) 0) + 1"

text \<open>
  \<open>INSERT INTO t (columns) VALUES (?, ...)\<close> with the bound arguments. The statement is
  rejected when it names a column the table does not have. The result is the table with
  the new row and the \<open>id\<close> of that row (\<open>LastInsertId\<close>). A statement that names
  \<open>id\<close> itself is not covered: \<open>buildInsertParams\<close> never produces one.
\<close>

definition sql_insert :: "sql_table \<Rightarrow> string list \<Rightarrow> go_value list \<Rightarrow> string + (sql_table \<times> int)" where
  "sql_insert t columns vals =
    (if ''id'' \<in> set columns then Inl ''explicit id not modelled''
     else (case filter (\<lambda>c. c \<notin> set (map col_name (tbl_columns t))) columns of
       c # _ \<Rightarrow> Inl (''table '' @ tbl_name t @ '' has no column named '' @ c)
     | [] \<Rightarrow>
        (if length columns \<noteq> length vals then Inl ''wrong number of bound values''
         else (case sql_cells (tbl_name t) (tbl_columns t) (zip columns (map sql_bind vals)) of
                 Inl e \<Rightarrow> Inl e
               | Inr cells \<Rightarrow>
                   Inr (t\<lparr>tbl_rows := tbl_rows t @ [(sql_next_id t, cells)],
                           tbl_seq := sql_next_id t\<rparr>,
                        sql_next_id t)))))"

text \<open>\<open>SELECT COUNT(*) FROM t\<close>.\<close>

definition sql_count :: "sql_table \<Rightarrow> int" where
  "sql_count t = int (length (tbl_rows t))"

text \<open>
  The \<open>timestamp\<close> cell of a row. Both tables declare the column as
  \<open>INTEGER NOT NULL\<close>, so every row has an integer there; the other case is only there
  to make the function total.
\<close>

definition row_timestamp :: "sql_row \<Rightarrow> int" where
  "row_timestamp r = (case map_of (snd r) ''timestamp'' of Some (SqlInt i) \<Rightarrow> i | _ \<Rightarrow> 0)"

text \<open>
  \<open>SELECT id FROM t ORDER BY timestamp DESC LIMIT n\<close>. The engine is free in the order
  of rows with equal timestamps; the model takes the stable order, in which the row
  inserted first comes first among equals.
\<close>

definition sql_newest_ids :: "sql_table \<Rightarrow> nat \<Rightarrow> int list" where
  "sql_newest_ids t n = map fst (take n (sort_key (\<lambda>r. - row_timestamp r) (tbl_rows t)))"

text \<open>\<open>DELETE FROM t WHERE id NOT IN (SELECT id FROM t ORDER BY timestamp DESC LIMIT n)\<close>.\<close>

definition sql_trim :: "sql_table \<Rightarrow> nat \<Rightarrow> sql_table" where
  "sql_trim t n = t\<lparr>tbl_rows := filter (\<lambda>r. fst r \<in> set (sql_newest_ids t n)) (tbl_rows t)\<rparr>"

text \<open>
  Any statement can also fail for a reason outside the program (the disk, a lock). Each
  call of a save function gets the engine's answer for its three statements: \<open>None\<close>
  when the statement runs, or the error it gives back.
\<close>

datatype sql_stmt = StmtInsert | StmtCount | StmtDelete

type_synonym sql_faults = "sql_stmt \<Rightarrow> string option"

definition no_faults :: sql_faults where
  "no_faults = (\<lambda>s. None)"

subsection \<open>The database of the program\<close>

record database =
  messages :: sql_table
  calls :: sql_table

definition maxMessages :: int where
  "maxMessages = 200"

definition trimToCount :: nat where
  "trimToCount = 150"

text \<open>
  \<open>initMessageDB\<close> on a fresh file: the two \<open>CREATE TABLE\<close> statements, with no rows.
  (On an existing file \<open>IF NOT EXISTS\<close> leaves the tables as earlier runs left them.)
\<close>

definition initMessageDB :: database where
  "initMessageDB =
    \<lparr>messages =
       \<lparr>tbl_name = ''messages'',
        tbl_columns =
          [\<lparr>col_name = ''message_id'', col_type = SqlTEXT, col_default = Some (SqlStr [])\<rparr>,
           \<lparr>col_name = ''timestamp'', col_type = SqlINTEGER, col_default = None\<rparr>,
           \<lparr>col_name = ''chat_jid'', col_type = SqlTEXT, col_default = None\<rparr>,
           \<lparr>col_name = ''chat_name'', col_type = SqlTEXT, col_default = None\<rparr>,
           \<lparr>col_name = ''sender_jid'', col_type = SqlTEXT, col_default = None\<rparr>,
           \<lparr>col_name = ''sender_name'', col_type = SqlTEXT, col_default = None\<rparr>,
           \<lparr>col_name = ''is_group'', col_type = SqlINTEGER, col_default = None\<rparr>,
           \<lparr>col_name = ''is_muted'', col_type = SqlINTEGER, col_default = None\<rparr>,
           \<lparr>col_name = ''is_reply_to_me'', col_type = SqlINTEGER, col_default = None\<rparr>,
           \<lparr>col_name = ''text'', col_type = SqlTEXT, col_default = None\<rparr>],
        tbl_rows = [],
        tbl_seq = 0\<rparr>,
     calls =
       \<lparr>tbl_name = ''calls'',
        tbl_columns =
          [\<lparr>col_name = ''timestamp'', col_type = SqlINTEGER, col_default = None\<rparr>,
           \<lparr>col_name = ''call_id'', col_type = SqlTEXT, col_default = None\<rparr>,
           \<lparr>col_name = ''caller_jid'', col_type = SqlTEXT, col_default = None\<rparr>,
           \<lparr>col_name = ''caller_name'', col_type = SqlTEXT, col_default = None\<rparr>,
           \<lparr>col_name = ''is_group'', col_type = SqlINTEGER, col_default = None\<rparr>,
           \<lparr>col_name = ''group_jid'', col_type = SqlTEXT, col_default = None\<rparr>,
           \<lparr>col_name = ''group_name'', col_type = SqlTEXT, col_default = None\<rparr>],
        tbl_rows = [],
        tbl_seq = 0\<rparr>\<rparr>"

text \<open>
  \<open>saveMessage\<close>: insert, set the \<open>ID\<close> of the message from \<open>LastInsertId\<close>, count, and
  delete all but the newest \<open>trimToCount\<close> rows when the count is above \<open>maxMessages\<close>.
  Each of the three statements returns early with its error. The result is the error (if
  any), the message as the caller sees it afterwards, and the database.
\<close>

definition saveMessage :: "database \<Rightarrow> sql_faults \<Rightarrow> Message \<Rightarrow> string option \<times> Message \<times> database" where
  "saveMessage db faults msg =
    (case buildInsertParams (Message_fields msg) of (columns, placeholders, vals) \<Rightarrow>
      (case (case faults StmtInsert of
               Some e \<Rightarrow> Inl e
             | None \<Rightarrow> sql_insert (messages db) columns vals) of
         Inl err \<Rightarrow> (Some err, msg, db)
       | Inr (t1, lastInsertId) \<Rightarrow>
           (let msg1 = msg\<lparr>ID := lastInsertId\<rparr>;
                db1 = db\<lparr>messages := t1\<rparr>
            in (case faults StmtCount of
                  Some err \<Rightarrow> (Some err, msg1, db1)
                | None \<Rightarrow>
                    (if sql_count t1 > maxMessages then
                       (case faults StmtDelete of
                          Some err \<Rightarrow> (Some err, msg1, db1)
                        | None \<Rightarrow> (None, msg1, db1\<lparr>messages := sql_trim t1 trimToCount\<rparr>))
                     else (None, msg1, db1))))))"

text \<open>\<open>saveCall\<close>: the same steps on the table \<open>calls\<close>.\<close>

definition saveCall :: "database \<Rightarrow> sql_faults \<Rightarrow> Call \<Rightarrow> string option \<times> Call \<times> database" where
  "saveCall db faults call =
    (case buildInsertParams (Call_fields call) of (columns, placeholders, vals) \<Rightarrow>
      (case (case faults StmtInsert of
               Some e \<Rightarrow> Inl e
             | None \<Rightarrow> sql_insert (calls db) columns vals) of
         Inl err \<Rightarrow> (Some err, call, db)
       | Inr (t1, lastInsertId) \<Rightarrow>
           (let call1 = call\<lparr>Call_ID := lastInsertId\<rparr>;
                db1 = db\<lparr>calls := t1\<rparr>
            in (case faults StmtCount of
                  Some err \<Rightarrow> (Some err, call1, db1)
                | None \<Rightarrow>
                    (if sql_count t1 > maxMessages then
                       (case faults StmtDelete of
                          Some err \<Rightarrow> (Some err, call1, db1)
                        | None \<Rightarrow> (None, call1, db1\<lparr>calls := sql_trim t1 trimToCount\<rparr>))
                     else (None, call1, db1))))))"

text \<open>
  A sequence of appends, each with the engine's answers for it, run from a given
  database.
\<close>

datatype append_op = AppendMessage sql_faults Message | AppendCall sql_faults Call

fun append_step :: "database \<Rightarrow> append_op \<Rightarrow> database" where
  "append_step db (AppendMessage faults m) = snd (snd (saveMessage db faults m))"
| "append_step db (AppendCall faults c) = snd (snd (saveCall db faults c))"

definition run_appends_from :: "database \<Rightarrow> append_op list \<Rightarrow> database" where
  "run_appends_from db0 ops = foldl append_step db0 ops"

definition run_appends :: "append_op list \<Rightarrow> database" where
  "run_appends ops = run_appends_from initMessageDB ops"

text \<open>
  What holds of the database after any sequence of appends: the two tables keep the
  names and columns they were created with, no two rows of \<open>calls\<close> share an \<open>id\<close>, and
  \<open>messages\<close> has no row.
\<close>

definition table_ok :: "sql_table \<Rightarrow> bool" where
  "table_ok t = distinct (map fst (tbl_rows t))"

definition db_ok :: "database \<Rightarrow> bool" where
  "db_ok db =
    (tbl_name (messages db) = ''messages''
     \<and> tbl_columns (messages db) = tbl_columns (messages initMessageDB)
     \<and> tbl_rows (messages db) = []
     \<and> tbl_name (calls db) = ''calls''
     \<and> tbl_columns (calls db) = tbl_columns (calls initMessageDB)
     \<and> table_ok (calls db))"

text \<open>
  The cells that the insert of \<open>saveMessage\<close> writes for a message when the table has the
  columns of \<open>initMessageDB\<close> and the column \<open>type\<close>.
\<close>

definition Message_cells :: "Message \<Rightarrow> (string \<times> sql_value) list" where
  "Message_cells m =
     [(''type'', SqlStr (Type m)),
      (''message_id'', SqlStr []),
      (''timestamp'', SqlInt (Timestamp m)),
      (''chat_jid'', SqlStr (ChatJID m)),
      (''chat_name'', SqlStr (ChatName m)),
      (''sender_jid'', SqlStr (SenderJID m)),
      (''sender_name'', SqlStr (SenderName m)),
      (''is_group'', SqlInt (if IsGroup m then 1 else 0)),
      (''is_muted'', SqlInt (if IsMuted m then 1 else 0)),
      (''is_reply_to_me'', SqlInt (if IsReplyToMe m then 1 else 0)),
      (''text'', SqlStr (Text m))]"

text \<open>The cells that the insert of \<open>saveCall\<close> writes for a call, and the table after it.\<close>

definition Call_cells :: "Call \<Rightarrow> (string \<times> sql_value) list" where
  "Call_cells c =
     [(''timestamp'', SqlInt (Call_Timestamp c)),
      (''call_id'', SqlStr (CallID c)),
      (''caller_jid'', SqlStr (CallerJID c)),
      (''caller_name'', SqlStr (CallerName c)),
      (''is_group'', SqlInt (if Call_IsGroup c then 1 else 0)),
      (''group_jid'', SqlStr (GroupJID c)),
      (''group_name'', SqlStr (GroupName c))]"

definition calls_inserted :: "database \<Rightarrow> Call \<Rightarrow> sql_table" where
  "calls_inserted db c =
    (calls db)\<lparr>tbl_rows := tbl_rows (calls db) @ [(sql_next_id (calls db), Call_cells c)],
               tbl_seq := sql_next_id (calls db)\<rparr>"

section \<open>The messaging client as the program sees it\<close>

subsection \<open>Identities\<close>

text \<open>
  \<open>types.JID\<close> of the client library, with the two methods whose meaning the program
  relies on: \<open>ToNonAD\<close> clears the agent and the device, \<open>IsEmpty\<close> tests the server
  for emptiness. The program reaches the text form (\<open>String\<close>) and the parser
  (\<open>ParseJID\<close>) of the library through \<open>jidString\<close> and \<open>parseJID\<close> of the world
  below, so what is proved holds whatever the two do.
\<close>

record JID =
  User :: string
  RawAgent :: nat
  Device :: nat
  Integrator :: nat
  Server :: string

definition ToNonAD :: "JID \<Rightarrow> JID" where
  "ToNonAD jid = \<lparr>User = User jid, RawAgent = 0, Device = 0, Integrator = Integrator jid,
                   Server = Server jid\<rparr>"

definition IsEmpty :: "JID \<Rightarrow> bool" where
  "IsEmpty jid = (length (Server jid) = 0)"

text \<open>
  The text form as the library writes it, for the concrete inputs: \<open>user.agent:device@server\<close>
  when there is an agent, \<open>user:device@server\<close> when there is a device, \<open>user@server\<close>
  when there is a user, and the server alone otherwise.
\<close>

fun decimal :: "nat \<Rightarrow> string" where
  "decimal n =
    (if n < 10 then [''0123456789'' ! n]
     else decimal (n div 10) @ [''0123456789'' ! (n mod 10)])"

definition JID_String :: "JID \<Rightarrow> string" where
  "JID_String jid =
    (if RawAgent jid > 0 then
       User jid @ ''.'' @ decimal (RawAgent jid) @ '':'' @ decimal (Device jid) @ ''@''
       @ Server jid
     else if Device jid > 0 then User jid @ '':'' @ decimal (Device jid) @ ''@'' @ Server jid
     else if length (User jid) > 0 then User jid @ ''@'' @ Server jid
     else Server jid)"

text \<open>
  The parser of the library on a text whose user part has no dot and no colon, for the
  concrete inputs: the text is split at \<open>@\<close>; without an \<open>@\<close> it is a server with no
  user, otherwise the first part is the user and the second the server. This includes
  the empty text, which is accepted as the empty identity. (From a user part with a dot
  or a colon the library goes on to read an agent and a device; no concrete input has
  one, and this definition does not do it.)
\<close>

fun split_on :: "char \<Rightarrow> string \<Rightarrow> string list" where
  "split_on c [] = [[]]"
| "split_on c (x # xs) =
    (if x = c then [] # split_on c xs
     else (case split_on c xs of p # ps \<Rightarrow> (x # p) # ps | [] \<Rightarrow> [[x]]))"

definition ParseJID_plain :: "string \<Rightarrow> string + JID" where
  "ParseJID_plain s =
    (case split_on (CHR ''@'') s of
       user # server # others \<Rightarrow>
         Inr \<lparr>User = user, RawAgent = 0, Device = 0, Integrator = 0, Server = server\<rparr>
     | parts \<Rightarrow>
         Inr \<lparr>User = [], RawAgent = 0, Device = 0, Integrator = 0, Server = s\<rparr>)"

subsection \<open>Protocol messages\<close>

text \<open>
  \<open>waE2E.Message\<close> and its parts, as far as the program reads or writes them. A field
  is named after its generated getter. A scalar field holds what the getter returns (the
  zero value when the field is not set); a part that the program tests against \<open>nil\<close> is
  an option.
\<close>

record ContextInfo =
  GetStanzaID :: string
  GetParticipant :: string
  GetMentionedJID :: "string list"

record ProtoWithContext =
  GetContextInfo :: "ContextInfo option"

record ExtendedTextMessage = ProtoWithContext +
  GetText :: string

text \<open>\<open>ImageMessage\<close> and \<open>VideoMessage\<close>: the program reads the same two fields of both.\<close>

record CaptionedMedia = ProtoWithContext +
  GetCaption :: string

record DocumentMessage = ProtoWithContext +
  GetFileName :: string

record AudioMessage = ProtoWithContext +
  GetPTT :: bool

record ContactMessage =
  GetDisplayName :: string

record waMessage =
  GetConversation :: string
  GetExtendedTextMessage :: "ExtendedTextMessage option"
  GetImageMessage :: "CaptionedMedia option"
  GetVideoMessage :: "CaptionedMedia option"
  GetDocumentMessage :: "DocumentMessage option"
  GetAudioMessage :: "AudioMessage option"
  GetStickerMessage :: "ProtoWithContext option"
  GetContactMessage :: "ContactMessage option"
  GetLocationMessage :: "unit option"

definition emptyMessage :: waMessage where
  "emptyMessage =
    \<lparr>GetConversation = [], GetExtendedTextMessage = None, GetImageMessage = None,
     GetVideoMessage = None, GetDocumentMessage = None, GetAudioMessage = None,
     GetStickerMessage = None, GetContactMessage = None, GetLocationMessage = None\<rparr>"

subsection \<open>Events\<close>

text \<open>
  \<open>events.Message\<close> with the fields of \<open>Info\<close> that the program reads (the prefix
  \<open>Info_\<close> where the name is also a field of \<open>Message\<close>); the timestamp is already the
  result of \<open>Unix()\<close>. \<open>BasicCallMeta\<close> is what both call events carry.
\<close>

record MessageInfo =
  IsFromMe :: bool
  Chat :: JID
  Sender :: JID
  Info_IsGroup :: bool
  Info_Timestamp :: int
  Info_PushName :: string

record events_Message =
  Info :: MessageInfo
  GetMessage :: "waMessage option"

record BasicCallMeta =
  From :: JID
  Meta_Timestamp :: int
  Meta_CallID :: string
  Meta_GroupJID :: JID

datatype event =
    EvMessage events_Message
  | EvCallOffer BasicCallMeta
  | EvCallOfferNotice BasicCallMeta
  | EvConnected
  | EvDisconnected
  | EvLoggedOut
  | EvOther

subsection \<open>Commands of a peer\<close>

record SocketCommand =
  cmd_Action :: string
  cmd_ChatJID :: string
  cmd_MessageID :: string
  cmd_SenderJID :: string
  cmd_Text :: string

subsection \<open>Everything outside the program\<close>

text \<open>
  The answers of the client library, the session store, the storage engine, the clock,
  the attention socket and the JSON decoder during one call of a handler. A lookup that
  can fail returns the error text on the left.
\<close>

record ChatSettings =
  settings_Found :: bool
  MutedUntil :: int

record ContactInfo =
  contact_Found :: bool
  PushName :: string
  FullName :: string

record world =
  storeID :: "JID option"
  storeLID :: JID
  jidString :: "JID \<Rightarrow> string"
  getChatSettingsOf :: "JID \<Rightarrow> string + ChatSettings"
  mutedForever :: int
  timeNow :: int
  getContactOf :: "JID \<Rightarrow> string + ContactInfo"
  getGroupInfoName :: "JID \<Rightarrow> string + string"
  dbFaults :: sql_faults
  attentionDial :: "string option"
  attentionWrite :: "string option"
  parseJID :: "string \<Rightarrow> string + JID"
  clientSendMessage :: "JID \<Rightarrow> waMessage \<Rightarrow> string option"
  jsonUnmarshal :: "string \<Rightarrow> string + SocketCommand"

section \<open>The program state and what a handler does\<close>

record Config =
  IncludeStatusMessages :: bool
  IncludeMutedMessages :: bool

type_synonym conn = nat

text \<open>
  \<open>App\<close>: the configuration, the message database and the set of connected peers. The
  Go map of connections is a list without repetitions; its order stands for the order
  in which \<open>range\<close> happens to visit the map.
\<close>

record App =
  config :: Config
  msgDB :: database
  socketConns :: "conn list"

datatype event_data = MessageData Message | CallData Call

record SocketEvent =
  event_Type :: string
  event_Data :: event_data

text \<open>
  What a handler does to the outside, in order. \<open>ConnWrite c ev\<close> is the write of the
  line \<open>json.Marshal(ev)\<close> to the peer \<open>c\<close>.
\<close>

datatype effect =
    Stderr string
  | Stdout string
  | ConnWrite conn SocketEvent
  | ConnClose conn
  | AttentionDial
  | AttentionWrite string
  | AttentionClose
  | ClientSend JID waMessage
  | Exit int

abbreviation newline :: string where
  "newline \<equiv> [CHR 0x0A]"

section \<open>The classifier\<close>

text \<open>\<open>isMuted\<close>: the chat settings say muted for ever, or muted until a later time.\<close>

definition isMuted :: "world \<Rightarrow> JID \<Rightarrow> bool" where
  "isMuted w chatJID =
    (case getChatSettingsOf w chatJID of
       Inl err \<Rightarrow> False
     | Inr settings \<Rightarrow>
         (if \<not> settings_Found settings then False
          else if MutedUntil settings = mutedForever w then True
          else if MutedUntil settings > timeNow w then True
          else False))"

text \<open>\<open>getContextInfo\<close>: the context of the first of six parts that is present.\<close>

definition getContextInfo :: "waMessage option \<Rightarrow> ContextInfo option" where
  "getContextInfo msg =
    (case msg of
       None \<Rightarrow> None
     | Some m \<Rightarrow>
        (case GetExtendedTextMessage m of
           Some ext \<Rightarrow> GetContextInfo ext
         | None \<Rightarrow>
        (case GetImageMessage m of
           Some img \<Rightarrow> GetContextInfo img
         | None \<Rightarrow>
        (case GetVideoMessage m of
           Some vid \<Rightarrow> GetContextInfo vid
         | None \<Rightarrow>
        (case GetDocumentMessage m of
           Some doc \<Rightarrow> GetContextInfo doc
         | None \<Rightarrow>
        (case GetAudioMessage m of
           Some audio \<Rightarrow> GetContextInfo audio
         | None \<Rightarrow>
        (case GetStickerMessage m of
           Some sticker \<Rightarrow> GetContextInfo sticker
         | None \<Rightarrow> None)))))))"

text \<open>
  The loop of \<open>isMentioned\<close> over the mentioned identities: the first one that equals
  the text of the own identity without device, the text of the own identity, or (when
  the linked identity is set) the text of the linked identity without device, ends it.
\<close>

fun mentionedLoop :: "world \<Rightarrow> JID \<Rightarrow> JID \<Rightarrow> string list \<Rightarrow> bool" where
  "mentionedLoop w myJID myLID [] = False"
| "mentionedLoop w myJID myLID (jid # rest) =
    (if jid = jidString w (ToNonAD myJID) \<or> jid = jidString w myJID then True
     else if \<not> IsEmpty myLID \<and> jid = jidString w (ToNonAD myLID) then True
     else mentionedLoop w myJID myLID rest)"

definition isMentioned :: "world \<Rightarrow> events_Message \<Rightarrow> bool" where
  "isMentioned w msg =
    (case storeID w of
       None \<Rightarrow> False
     | Some myJID \<Rightarrow>
        (case getContextInfo (GetMessage msg) of
           None \<Rightarrow> False
         | Some ctx \<Rightarrow> mentionedLoop w myJID (storeLID w) (GetMentionedJID ctx)))"

definition isReplyToMe :: "world \<Rightarrow> events_Message \<Rightarrow> bool" where
  "isReplyToMe w msg =
    (case storeID w of
       None \<Rightarrow> False
     | Some myJID \<Rightarrow>
        (case getContextInfo (GetMessage msg) of
           None \<Rightarrow> False
         | Some ctx \<Rightarrow>
            (let participant = GetParticipant ctx in
             if participant = [] then False
             else if participant = jidString w (ToNonAD myJID) \<or> participant = jidString w myJID
               then True
             else if \<not> IsEmpty (storeLID w) \<and> participant = jidString w (ToNonAD (storeLID w))
               then True
             else False)))"

text \<open>\<open>extractText\<close>, case by case in the order of the source.\<close>

definition extractText :: "waMessage option \<Rightarrow> string" where
  "extractText msg =
    (case msg of
       None \<Rightarrow> []
     | Some m \<Rightarrow>
        (if GetConversation m \<noteq> [] then GetConversation m
         else (case GetExtendedTextMessage m of
           Some ext \<Rightarrow> GetText ext
         | None \<Rightarrow>
        (case GetImageMessage m of
           Some img \<Rightarrow> (if GetCaption img \<noteq> [] then ''[Image] '' @ GetCaption img
                         else ''[Image]'')
         | None \<Rightarrow>
        (case GetVideoMessage m of
           Some vid \<Rightarrow> (if GetCaption vid \<noteq> [] then ''[Video] '' @ GetCaption vid
                         else ''[Video]'')
         | None \<Rightarrow>
        (case GetDocumentMessage m of
           Some doc \<Rightarrow> ''[Document] '' @ GetFileName doc
         | None \<Rightarrow>
        (case GetAudioMessage m of
           Some audio \<Rightarrow> (if GetPTT audio then ''[Voice Message]'' else ''[Audio]'')
         | None \<Rightarrow>
        (case GetStickerMessage m of
           Some sticker \<Rightarrow> ''[Sticker]''
         | None \<Rightarrow>
        (case GetContactMessage m of
           Some contact \<Rightarrow> ''[Contact] '' @ GetDisplayName contact
         | None \<Rightarrow>
        (case GetLocationMessage m of
           Some loc \<Rightarrow> ''[Location]''
         | None \<Rightarrow> []))))))))))"

text \<open>The name of a contact when the lookup finds one with a name.\<close>

definition contactName :: "world \<Rightarrow> JID \<Rightarrow> string option" where
  "contactName w jid =
    (case getContactOf w jid of
       Inl err \<Rightarrow> None
     | Inr contact \<Rightarrow>
        (if contact_Found contact then
           (if PushName contact \<noteq> [] then Some (PushName contact)
            else if FullName contact \<noteq> [] then Some (FullName contact)
            else None)
         else None))"

definition getSenderName :: "world \<Rightarrow> events_Message \<Rightarrow> string" where
  "getSenderName w msg =
    (let senderJID = Sender (Info msg) in
     case (if Info_IsGroup (Info msg) then contactName w senderJID else None) of
       Some name \<Rightarrow> name
     | None \<Rightarrow>
        (if Info_PushName (Info msg) \<noteq> [] then Info_PushName (Info msg)
         else User senderJID))"

definition getChatName :: "world \<Rightarrow> events_Message \<Rightarrow> string" where
  "getChatName w msg =
    (let chatJID = Chat (Info msg) in
     case (if Info_IsGroup (Info msg) then getGroupInfoName w chatJID else Inl []) of
       Inr name \<Rightarrow> name
     | Inl err \<Rightarrow>
        (case contactName w chatJID of
           Some name \<Rightarrow> name
         | None \<Rightarrow> User chatJID))"

definition getCallerName :: "world \<Rightarrow> JID \<Rightarrow> string" where
  "getCallerName w callerJID =
    (case contactName w callerJID of
       Some name \<Rightarrow> name
     | None \<Rightarrow> User callerJID)"

section \<open>Broadcast\<close>

text \<open>
  \<open>sendAttentionWindow\<close>: dial the attention socket, write one command, close. The
  result is what it did and the error it returns.
\<close>

definition attentionCommand :: string where
  "attentionCommand =
    ''add_attention_by_cmd {'' @ [CHR 0x22] @ ''command'' @ [CHR 0x22] @ '':['' @ [CHR 0x22]
      @ ''wacli-tui'' @ [CHR 0x22] @ ''],'' @ [CHR 0x22] @ ''id'' @ [CHR 0x22] @ '':''
      @ [CHR 0x22] @ ''wacli'' @ [CHR 0x22] @ ''}''"

definition sendAttentionWindow :: "world \<Rightarrow> effect list \<times> string option" where
  "sendAttentionWindow w =
    (case attentionDial w of
       Some err \<Rightarrow> ([AttentionDial], Some err)
     | None \<Rightarrow> ([AttentionDial, AttentionWrite attentionCommand, AttentionClose],
                attentionWrite w))"

text \<open>
  \<open>broadcastMessage\<close>: one write of the event to every connection, then the attention
  command; when that returns an error the process logs it and exits with status 1.
  (\<open>json.Marshal\<close> cannot fail on a \<open>Message\<close> or a \<open>Call\<close>, so the early return after
  it has no branch here.)
\<close>

definition broadcastMessage :: "App \<Rightarrow> world \<Rightarrow> Message \<Rightarrow> effect list" where
  "broadcastMessage a w msg =
    (let event = \<lparr>event_Type = ''message'', event_Data = MessageData msg\<rparr> in
     map (\<lambda>conn. ConnWrite conn event) (socketConns a)
     @ (case sendAttentionWindow w of
          (effs, Some err) \<Rightarrow>
            effs @ [Stderr (''Failed to send attention: '' @ err @ newline), Exit 1]
        | (effs, None) \<Rightarrow> effs))"

definition broadcastCall :: "App \<Rightarrow> world \<Rightarrow> Call \<Rightarrow> effect list" where
  "broadcastCall a w call =
    (let event = \<lparr>event_Type = ''call'', event_Data = CallData call\<rparr> in
     map (\<lambda>conn. ConnWrite conn event) (socketConns a))"

section \<open>The event handlers\<close>

text \<open>
  \<open>handleMessage\<close>. The three early returns leave the state as it is and do nothing.
  Otherwise the message is built, saved (an error of the save is logged) and broadcast.
\<close>

definition handleMessage :: "App \<Rightarrow> world \<Rightarrow> events_Message \<Rightarrow> App \<times> effect list" where
  "handleMessage a w msg =
    (if IsFromMe (Info msg) then (a, [])
     else
      (let chatJID = Chat (Info msg) in
       if Server chatJID = ''broadcast'' \<and> \<not> IncludeStatusMessages (config a) then (a, [])
       else
        (let muted = isMuted w chatJID;
             mentioned = isMentioned w msg;
             replyToMe = isReplyToMe w msg
         in
         if muted \<and> \<not> mentioned \<and> \<not> replyToMe \<and> \<not> IncludeMutedMessages (config a)
         then (a, [])
         else
          (let text0 = extractText (GetMessage msg);
               text = (if text0 = [] then ''[Media/Other]'' else text0);
               senderName = getSenderName w msg;
               chatName = getChatName w msg;
               message =
                 \<lparr>Type = ''message'',
                  ID = 0,
                  Timestamp = Info_Timestamp (Info msg),
                  ChatJID = jidString w chatJID,
                  ChatName = chatName,
                  SenderJID = jidString w (Sender (Info msg)),
                  SenderName = senderName,
                  IsGroup = Info_IsGroup (Info msg),
                  IsMuted = muted,
                  IsReplyToMe = replyToMe,
                  Text = text\<rparr>
           in
           (case saveMessage (msgDB a) (dbFaults w) message of
              (err, message1, db1) \<Rightarrow>
                (a\<lparr>msgDB := db1\<rparr>,
                 (case err of
                    Some e \<Rightarrow> [Stderr (''Failed to save message: '' @ e @ newline)]
                  | None \<Rightarrow> [])
                 @ broadcastMessage a w message1))))))"

text \<open>
  \<open>handleCallOffer\<close> and \<open>handleCallOfferNotice\<close> have the same body: build the call,
  save it, log an error of the save.
\<close>

definition handleCallOffer :: "App \<Rightarrow> world \<Rightarrow> BasicCallMeta \<Rightarrow> App \<times> effect list" where
  "handleCallOffer a w evt =
    (let isGroup = \<not> IsEmpty (Meta_GroupJID evt);
         groupName =
           (if isGroup then
              (case getGroupInfoName w (Meta_GroupJID evt) of
                 Inr name \<Rightarrow> name
               | Inl err \<Rightarrow> [])
            else []);
         call =
           \<lparr>Call_ID = 0,
            Call_Timestamp = Meta_Timestamp evt,
            CallID = Meta_CallID evt,
            CallerJID = jidString w (From evt),
            CallerName = getCallerName w (From evt),
            Call_IsGroup = isGroup,
            GroupJID = jidString w (Meta_GroupJID evt),
            GroupName = groupName\<rparr>
     in
     (case saveCall (msgDB a) (dbFaults w) call of
        (err, call1, db1) \<Rightarrow>
          (a\<lparr>msgDB := db1\<rparr>,
           (case err of
              Some e \<Rightarrow> [Stderr (''Failed to save call: '' @ e @ newline)]
            | None \<Rightarrow> []))))"

definition handleCallOfferNotice :: "App \<Rightarrow> world \<Rightarrow> BasicCallMeta \<Rightarrow> App \<times> effect list" where
  "handleCallOfferNotice a w evt =
    (let isGroup = \<not> IsEmpty (Meta_GroupJID evt);
         groupName =
           (if isGroup then
              (case getGroupInfoName w (Meta_GroupJID evt) of
                 Inr name \<Rightarrow> name
               | Inl err \<Rightarrow> [])
            else []);
         call =
           \<lparr>Call_ID = 0,
            Call_Timestamp = Meta_Timestamp evt,
            CallID = Meta_CallID evt,
            CallerJID = jidString w (From evt),
            CallerName = getCallerName w (From evt),
            Call_IsGroup = isGroup,
            GroupJID = jidString w (Meta_GroupJID evt),
            GroupName = groupName\<rparr>
     in
     (case saveCall (msgDB a) (dbFaults w) call of
        (err, call1, db1) \<Rightarrow>
          (a\<lparr>msgDB := db1\<rparr>,
           (case err of
              Some e \<Rightarrow> [Stderr (''Failed to save call: '' @ e @ newline)]
            | None \<Rightarrow> []))))"

text \<open>\<open>handleEvent\<close>: the type switch.\<close>

fun handleEvent :: "App \<Rightarrow> world \<Rightarrow> event \<Rightarrow> App \<times> effect list" where
  "handleEvent a w (EvMessage v) = handleMessage a w v"
| "handleEvent a w (EvCallOffer v) = handleCallOffer a w v"
| "handleEvent a w (EvCallOfferNotice v) = handleCallOfferNotice a w v"
| "handleEvent a w EvConnected = (a, [Stdout (''Connected to WhatsApp'' @ newline)])"
| "handleEvent a w EvDisconnected = (a, [Stdout (''Disconnected from WhatsApp'' @ newline)])"
| "handleEvent a w EvLoggedOut = (a, [Stdout (''Logged out from WhatsApp'' @ newline), Exit 0])"
| "handleEvent a w EvOther = (a, [])"

text \<open>
  The client hands the events to \<open>handleEvent\<close> one after the other. Once a handler has
  exited the process, no later event is handled.
\<close>

fun is_Exit :: "effect \<Rightarrow> bool" where
  "is_Exit (Exit n) = True"
| "is_Exit e = False"

fun run_events :: "App \<Rightarrow> (world \<times> event) list \<Rightarrow> App \<times> effect list" where
  "run_events a [] = (a, [])"
| "run_events a ((w, e) # rest) =
    (case handleEvent a w e of
       (a1, effs) \<Rightarrow>
         (if list_ex is_Exit effs then (a1, effs)
          else (case run_events a1 rest of (a2, effs2) \<Rightarrow> (a2, effs @ effs2))))"

section \<open>The command channel\<close>

text \<open>\<open>sendMessage\<close> and \<open>replyToMessage\<close>: what they do and the error they return.\<close>

definition sendMessage :: "world \<Rightarrow> string \<Rightarrow> string \<Rightarrow> effect list \<times> string option" where
  "sendMessage w chatJID text =
    (case parseJID w chatJID of
       Inl err \<Rightarrow> ([], Some (''invalid JID: '' @ err))
     | Inr jid \<Rightarrow>
        (let msg = emptyMessage\<lparr>GetConversation := text\<rparr> in
         case clientSendMessage w jid msg of
           Some err \<Rightarrow> ([ClientSend jid msg], Some (''send failed: '' @ err))
         | None \<Rightarrow>
             ([ClientSend jid msg, Stdout (''Sent message to '' @ chatJID @ newline)], None)))"

definition replyToMessage :: "world \<Rightarrow> string \<Rightarrow> string \<Rightarrow> string \<Rightarrow> string
    \<Rightarrow> effect list \<times> string option" where
  "replyToMessage w chatJID messageID senderJID text =
    (case parseJID w chatJID of
       Inl err \<Rightarrow> ([], Some (''invalid chat JID: '' @ err))
     | Inr jid \<Rightarrow>
        (let msg = emptyMessage\<lparr>GetExtendedTextMessage :=
                     Some \<lparr>GetContextInfo =
                             Some \<lparr>GetStanzaID = messageID, GetParticipant = senderJID,
                                   GetMentionedJID = []\<rparr>,
                           GetText = text\<rparr>\<rparr>
         in
         case clientSendMessage w jid msg of
           Some err \<Rightarrow> ([ClientSend jid msg], Some (''reply failed: '' @ err))
         | None \<Rightarrow>
             ([ClientSend jid msg,
               Stdout (''Replied to message '' @ messageID @ '' in '' @ chatJID @ newline)],
              None)))"

text \<open>The body of the loop of \<open>handleSocketConn\<close> for one line that the scanner delivers.\<close>

definition socketCommand :: "world \<Rightarrow> string \<Rightarrow> effect list" where
  "socketCommand w line =
    (case jsonUnmarshal w line of
       Inl err \<Rightarrow> [Stderr (''Failed to parse socket command: '' @ err @ newline)]
     | Inr cmd \<Rightarrow>
        (if cmd_Action cmd = ''send'' then
           (case sendMessage w (cmd_ChatJID cmd) (cmd_Text cmd) of
              (effs, Some err) \<Rightarrow> effs @ [Stderr (''Failed to send message: '' @ err @ newline)]
            | (effs, None) \<Rightarrow> effs)
         else if cmd_Action cmd = ''reply'' then
           (case replyToMessage w (cmd_ChatJID cmd) (cmd_MessageID cmd) (cmd_SenderJID cmd)
                   (cmd_Text cmd) of
              (effs, Some err) \<Rightarrow>
                effs @ [Stderr (''Failed to reply to message: '' @ err @ newline)]
            | (effs, None) \<Rightarrow> effs)
         else [Stderr (''Unknown socket command: '' @ cmd_Action cmd @ newline)]))"

text \<open>
  The scanner of \<open>handleSocketConn\<close> is a \<open>bufio.Scanner\<close> with its default buffer and
  the default split into lines. What the peer has sent before the connection ended is a
  list of lines: the bytes between two newlines, and at the end the bytes after the last
  newline if there are any. \<open>Scan\<close> delivers a line without its trailing carriage
  return. It returns false when the input has ended (the peer has closed the connection,
  or a read has failed), and also at a line of \<open>bufio.MaxScanTokenSize\<close> bytes or more,
  which does not fit its buffer; the program never looks at the error of the scanner.
\<close>

definition maxScanTokenSize :: nat where
  "maxScanTokenSize = 64 * 1024"

definition dropCR :: "string \<Rightarrow> string" where
  "dropCR line = (if line \<noteq> [] \<and> last line = CHR 0x0D then butlast line else line)"

fun scanLines :: "string list \<Rightarrow> string list" where
  "scanLines [] = []"
| "scanLines (line # rest) =
    (if maxScanTokenSize \<le> length line then []
     else dropCR line # scanLines rest)"

text \<open>The loop \<open>for scanner.Scan()\<close> over the lines that the scanner delivers.\<close>

fun socketLoop :: "world \<Rightarrow> string list \<Rightarrow> effect list" where
  "socketLoop w [] = []"
| "socketLoop w (line # rest) = socketCommand w line @ socketLoop w rest"

text \<open>
  \<open>handleSocketConn\<close> enters the connection into the set, runs the loop over what the
  scanner delivers of the lines sent, and on return (the deferred function) takes the
  connection out of the set and closes it. The result is the state while the loop runs,
  the state after the return, and what was done.
\<close>

definition registerConn :: "App \<Rightarrow> conn \<Rightarrow> App" where
  "registerConn a c =
    a\<lparr>socketConns := (if c \<in> set (socketConns a) then socketConns a else socketConns a @ [c])\<rparr>"

definition unregisterConn :: "App \<Rightarrow> conn \<Rightarrow> App" where
  "unregisterConn a c = a\<lparr>socketConns := removeAll c (socketConns a)\<rparr>"

definition handleSocketConn :: "App \<Rightarrow> world \<Rightarrow> conn \<Rightarrow> string list \<Rightarrow> App \<times> App \<times> effect list" where
  "handleSocketConn a w c sent =
    (let a1 = registerConn a c in
     (a1, unregisterConn a1 c, socketLoop w (scanLines sent) @ [ConnClose c]))"

section \<open>Derived notions\<close>

text \<open>
  The three early returns of \<open>handleMessage\<close> as one condition, the message it builds
  when none of them applies, and what it then does with that message. The lemma
  \<open>handleMessage_cases\<close> shows that \<open>handleMessage\<close> is made of exactly these parts.
\<close>

definition classifierDrops :: "App \<Rightarrow> world \<Rightarrow> events_Message \<Rightarrow> bool" where
  "classifierDrops a w msg =
    (IsFromMe (Info msg)
     \<or> (Server (Chat (Info msg)) = ''broadcast'' \<and> \<not> IncludeStatusMessages (config a))
     \<or> (isMuted w (Chat (Info msg)) \<and> \<not> isMentioned w msg \<and> \<not> isReplyToMe w msg
         \<and> \<not> IncludeMutedMessages (config a)))"

definition keptMessage :: "world \<Rightarrow> events_Message \<Rightarrow> Message" where
  "keptMessage w msg =
    \<lparr>Type = ''message'',
     ID = 0,
     Timestamp = Info_Timestamp (Info msg),
     ChatJID = jidString w (Chat (Info msg)),
     ChatName = getChatName w msg,
     SenderJID = jidString w (Sender (Info msg)),
     SenderName = getSenderName w msg,
     IsGroup = Info_IsGroup (Info msg),
     IsMuted = isMuted w (Chat (Info msg)),
     IsReplyToMe = isReplyToMe w msg,
     Text = (if extractText (GetMessage msg) = [] then ''[Media/Other]''
             else extractText (GetMessage msg))\<rparr>"

definition keptOutcome :: "App \<Rightarrow> world \<Rightarrow> events_Message \<Rightarrow> App \<times> effect list" where
  "keptOutcome a w msg =
    (case saveMessage (msgDB a) (dbFaults w) (keptMessage w msg) of
       (err, message1, db1) \<Rightarrow>
         (a\<lparr>msgDB := db1\<rparr>,
          (case err of
             Some e \<Rightarrow> [Stderr (''Failed to save message: '' @ e @ newline)]
           | None \<Rightarrow> [])
          @ broadcastMessage a w message1))"

text \<open>The call that the two call handlers build.\<close>

definition builtCall :: "world \<Rightarrow> BasicCallMeta \<Rightarrow> Call" where
  "builtCall w evt =
    \<lparr>Call_ID = 0,
     Call_Timestamp = Meta_Timestamp evt,
     CallID = Meta_CallID evt,
     CallerJID = jidString w (From evt),
     CallerName = getCallerName w (From evt),
     Call_IsGroup = (\<not> IsEmpty (Meta_GroupJID evt)),
     GroupJID = jidString w (Meta_GroupJID evt),
     GroupName =
       (if \<not> IsEmpty (Meta_GroupJID evt) then
          (case getGroupInfoName w (Meta_GroupJID evt) of Inr name \<Rightarrow> name | Inl err \<Rightarrow> [])
        else [])\<rparr>"

fun is_ConnWrite :: "effect \<Rightarrow> bool" where
  "is_ConnWrite (ConnWrite c ev) = True"
| "is_ConnWrite e = False"

fun is_ConnClose :: "effect \<Rightarrow> bool" where
  "is_ConnClose (ConnClose c) = True"
| "is_ConnClose e = False"







section \<open>Concrete inputs\<close>

text \<open>
  An account \<open>15550100\<close>, logged in as its device 3, with the linked identity \<open>77001\<close>,
  one muted chat, a store that answers every statement, an attention socket that works,
  a client that can send to \<open>15550111\<close> only, and one connected peer.
\<close>

definition user_jid :: "string \<Rightarrow> JID" where
  "user_jid u = \<lparr>User = u, RawAgent = 0, Device = 0, Integrator = 0, Server = ''s.whatsapp.net''\<rparr>"

definition no_jid :: JID where
  "no_jid = \<lparr>User = [], RawAgent = 0, Device = 0, Integrator = 0, Server = []\<rparr>"

definition own_jid :: JID where
  "own_jid = \<lparr>User = ''15550100'', RawAgent = 0, Device = 3, Integrator = 0,
              Server = ''s.whatsapp.net''\<rparr>"

definition own_lid :: JID where
  "own_lid = \<lparr>User = ''77001'', RawAgent = 0, Device = 3, Integrator = 0, Server = ''lid''\<rparr>"

text \<open>
  Five lines of a peer, as JSON texts: one that does not parse, an unknown action, a send
  and a reply to a chat the client cannot reach, and a send that works. \<open>example_decode\<close>
  is what the decoder makes of them.
\<close>

definition dq :: "string \<Rightarrow> string" where
  "dq s = [CHR 0x22] @ s @ [CHR 0x22]"

definition line_junk :: string where
  "line_junk = ''{junk''"

definition line_ping :: string where
  "line_ping = ''{'' @ dq ''action'' @ '':'' @ dq ''ping'' @ ''}''"

definition line_send_unreachable :: string where
  "line_send_unreachable =
    ''{'' @ dq ''action'' @ '':'' @ dq ''send'' @ '','' @ dq ''chat_jid'' @ '':''
    @ dq ''15550199@s.whatsapp.net'' @ '','' @ dq ''text'' @ '':'' @ dq ''hi'' @ ''}''"

definition line_reply_unreachable :: string where
  "line_reply_unreachable =
    ''{'' @ dq ''action'' @ '':'' @ dq ''reply'' @ '','' @ dq ''chat_jid'' @ '':''
    @ dq ''15550199@s.whatsapp.net'' @ '','' @ dq ''message_id'' @ '':'' @ dq ''M1'' @ '',''
    @ dq ''sender_jid'' @ '':'' @ dq ''15550111@s.whatsapp.net'' @ '','' @ dq ''text'' @ '':''
    @ dq ''ok'' @ ''}''"

definition line_send :: string where
  "line_send =
    ''{'' @ dq ''action'' @ '':'' @ dq ''send'' @ '','' @ dq ''chat_jid'' @ '':''
    @ dq ''15550111@s.whatsapp.net'' @ '','' @ dq ''text'' @ '':'' @ dq ''hi'' @ ''}''"

definition example_decode :: "string \<Rightarrow> string + SocketCommand" where
  "example_decode l =
    (if l = line_send
       then Inr \<lparr>cmd_Action = ''send'', cmd_ChatJID = ''15550111@s.whatsapp.net'',
                 cmd_MessageID = [], cmd_SenderJID = [], cmd_Text = ''hi''\<rparr>
     else if l = line_send_unreachable
       then Inr \<lparr>cmd_Action = ''send'', cmd_ChatJID = ''15550199@s.whatsapp.net'',
                 cmd_MessageID = [], cmd_SenderJID = [], cmd_Text = ''hi''\<rparr>
     else if l = line_reply_unreachable
       then Inr \<lparr>cmd_Action = ''reply'', cmd_ChatJID = ''15550199@s.whatsapp.net'',
                 cmd_MessageID = ''M1'', cmd_SenderJID = ''15550111@s.whatsapp.net'',
                 cmd_Text = ''ok''\<rparr>
     else if l = line_ping
       then Inr \<lparr>cmd_Action = ''ping'', cmd_ChatJID = [], cmd_MessageID = [],
                 cmd_SenderJID = [], cmd_Text = []\<rparr>
     else Inl ''invalid character 'j' looking for beginning of object key string'')"

text \<open>
  A line that is too long for the scanner: the send that works, followed by spaces up to
  well over 64 KiB. It is still a well-formed command record.
\<close>

definition line_too_long :: string where
  "line_too_long = line_send @ replicate 65536 (CHR '' '')"

definition example_world :: world where
  "example_world =
    \<lparr>storeID = Some own_jid,
     storeLID = own_lid,
     jidString = JID_String,
     getChatSettingsOf =
       (\<lambda>j. if User j = ''15550111''
            then Inr \<lparr>settings_Found = True, MutedUntil = 253402300799\<rparr>
            else Inr \<lparr>settings_Found = False, MutedUntil = 0\<rparr>),
     mutedForever = 253402300799,
     timeNow = 1700000000,
     getContactOf = (\<lambda>j. Inr \<lparr>contact_Found = False, PushName = [], FullName = []\<rparr>),
     getGroupInfoName = (\<lambda>j. Inl ''not a group''),
     dbFaults = no_faults,
     attentionDial = None,
     attentionWrite = None,
     parseJID = ParseJID_plain,
     clientSendMessage =
       (\<lambda>j m. if User j = ''15550111'' then None else Some ''websocket not connected''),
     jsonUnmarshal = example_decode\<rparr>"

text \<open>
  A database file in which the table \<open>messages\<close> also has the column \<open>type\<close> that the
  insert of \<open>saveMessage\<close> names. (\<open>CREATE TABLE IF NOT EXISTS\<close> leaves such a table as
  it is.)
\<close>

definition db_with_type_column :: database where
  "db_with_type_column =
    initMessageDB\<lparr>messages := (messages initMessageDB)\<lparr>tbl_columns :=
      \<lparr>col_name = ''type'', col_type = SqlTEXT, col_default = None\<rparr>
      # tbl_columns (messages initMessageDB)\<rparr>\<rparr>"

definition example_app :: App where
  "example_app =
    \<lparr>config = \<lparr>IncludeStatusMessages = False, IncludeMutedMessages = False\<rparr>,
     msgDB = initMessageDB,
     socketConns = [7]\<rparr>"

text \<open>
  A message in the muted chat \<open>15550111\<close>, sent at \<open>1700000100\<close>: an image with a caption
  whose context names the given participant and mentions.
\<close>

definition example_message :: "bool \<Rightarrow> string \<Rightarrow> string list \<Rightarrow> events_Message" where
  "example_message fromMe participant mentions =
    \<lparr>Info = \<lparr>IsFromMe = fromMe, Chat = user_jid ''15550111'', Sender = user_jid ''15550111'',
              Info_IsGroup = False, Info_Timestamp = 1700000100, Info_PushName = ''Ann''\<rparr>,
     GetMessage = Some (emptyMessage\<lparr>GetImageMessage :=
        Some \<lparr>GetContextInfo = Some \<lparr>GetStanzaID = ''M0'', GetParticipant = participant,
                                      GetMentionedJID = mentions\<rparr>,
              GetCaption = ''hello''\<rparr>\<rparr>)\<rparr>"



text \<open>A call and a message as the save functions get them.\<close>

definition example_call_record :: Call where
  "example_call_record =
    \<lparr>Call_ID = 0, Call_Timestamp = 1700000200, CallID = ''CALL1'',
     CallerJID = ''15550111@s.whatsapp.net'', CallerName = ''Ann'', Call_IsGroup = False,
     GroupJID = [], GroupName = []\<rparr>"

definition example_message_record :: Message where
  "example_message_record =
    \<lparr>Type = ''message'', ID = 0, Timestamp = 1700000100,
     ChatJID = ''15550111@s.whatsapp.net'', ChatName = ''Ann'',
     SenderJID = ''15550111@s.whatsapp.net'', SenderName = ''Ann'', IsGroup = False,
     IsMuted = False, IsReplyToMe = False, Text = ''hello''\<rparr>"

definition example_call :: BasicCallMeta where
  "example_call =
    \<lparr>From = user_jid ''15550111'', Meta_Timestamp = 1700000200, Meta_CallID = ''CALL1'',
     Meta_GroupJID = no_jid\<rparr>"

section \<open>Properties of the bounded store\<close>

subsection \<open>The engine: fresh ids, and what the trim keeps\<close>

lemma fold_max_ge_init: "(a::int) \<le> fold max xs a"
  by (induction xs arbitrary: a) (auto intro: order_trans[OF max.cobounded2])

lemma fold_max_ge: "(x::int) \<in> set xs \<Longrightarrow> x \<le> fold max xs a"
proof (induction xs arbitrary: a)
  case Nil
  then show ?case by simp
next
  case (Cons y ys)
  show ?case
  proof (cases "x = y")
    case True
    have "max y a \<le> fold max ys (max y a)" by (rule fold_max_ge_init)
    with True show ?thesis by simp
  next
    case False
    with Cons show ?thesis by simp
  qed
qed

lemma sql_next_id_fresh: "r \<in> set (tbl_rows t) \<Longrightarrow> fst r < sql_next_id t"
proof -
  assume "r \<in> set (tbl_rows t)"
  then have "fst r \<le> fold max (map fst (tbl_rows t)) 0"
    by (intro fold_max_ge) simp
  then show ?thesis by (simp add: sql_next_id_def)
qed

lemma sql_insert_result:
  assumes "sql_insert t columns vals = Inr (t1, i)"
  shows "\<exists>cells. sql_cells (tbl_name t) (tbl_columns t) (zip columns (map sql_bind vals)) = Inr cells
           \<and> t1 = t\<lparr>tbl_rows := tbl_rows t @ [(sql_next_id t, cells)], tbl_seq := sql_next_id t\<rparr>
           \<and> i = sql_next_id t"
  using assms by (auto simp: sql_insert_def split: if_splits list.splits sum.splits)

lemma sql_insert_ok:
  assumes "sql_insert t columns vals = Inr (t1, i)" and "table_ok t"
  shows "table_ok t1"
proof -
  from sql_insert_result[OF assms(1)] obtain cells where
    t1: "t1 = t\<lparr>tbl_rows := tbl_rows t @ [(sql_next_id t, cells)], tbl_seq := sql_next_id t\<rparr>"
    by blast
  have "sql_next_id t \<notin> fst ` set (tbl_rows t)"
    using sql_next_id_fresh[of _ t] by force
  with assms(2) show ?thesis by (simp add: t1 table_ok_def)
qed

lemma sql_trim_ok: "table_ok t \<Longrightarrow> table_ok (sql_trim t n)"
  by (simp add: table_ok_def sql_trim_def distinct_map_filter)

lemma sorted_take_drop:
  assumes "sorted (map f xs)" and "x \<in> set (take n xs)" and "y \<in> set (drop n xs)"
  shows "f x \<le> f y"
proof -
  have "sorted (map f (take n xs) @ map f (drop n xs))"
    using assms(1) by (metis append_take_drop_id map_append)
  then show ?thesis using assms(2,3) by (auto simp: sorted_append)
qed

lemma kept_rows:
  assumes d: "distinct (map fst rows)" and ss: "set s = set rows"
  shows "set (filter (\<lambda>r. fst r \<in> set (map fst (take n s))) rows) = set (take n s)"
proof -
  have inj: "inj_on fst (set rows)" using d by (simp add: distinct_map)
  have sub: "set (take n s) \<subseteq> set rows" using ss set_take_subset[of n s] by simp
  show ?thesis
  proof (intro equalityI subsetI)
    fix r assume "r \<in> set (filter (\<lambda>r. fst r \<in> set (map fst (take n s))) rows)"
    then have r: "r \<in> set rows" and "fst r \<in> fst ` set (take n s)" by auto
    then obtain r' where r': "r' \<in> set (take n s)" "fst r = fst r'" by auto
    with sub have "r' \<in> set rows" by auto
    with inj r r' have "r = r'" by (auto dest: inj_onD)
    with r' show "r \<in> set (take n s)" by simp
  next
    fix r assume "r \<in> set (take n s)"
    with sub show "r \<in> set (filter (\<lambda>r. fst r \<in> set (map fst (take n s))) rows)" by auto
  qed
qed

lemma sql_trim_set:
  assumes "table_ok t"
  shows "set (tbl_rows (sql_trim t n)) = set (take n (sort_key (\<lambda>r. - row_timestamp r) (tbl_rows t)))"
  using assms kept_rows[of "tbl_rows t" "sort_key (\<lambda>r. - row_timestamp r) (tbl_rows t)" n]
  by (simp add: sql_trim_def sql_newest_ids_def table_ok_def)

lemma sql_trim_length:
  assumes ok: "table_ok t" and n: "n \<le> length (tbl_rows t)"
  shows "length (tbl_rows (sql_trim t n)) = n"
proof -
  let ?s = "sort_key (\<lambda>r. - row_timestamp r) (tbl_rows t)"
  have dr: "distinct (tbl_rows t)" using ok by (simp add: table_ok_def distinct_map)
  have ds: "distinct ?s" using dr by simp
  have dk: "distinct (tbl_rows (sql_trim t n))" using dr by (simp add: sql_trim_def)
  have "length (tbl_rows (sql_trim t n)) = card (set (tbl_rows (sql_trim t n)))"
    using dk by (simp add: distinct_card)
  also have "\<dots> = card (set (take n ?s))" by (simp add: sql_trim_set[OF ok])
  also have "\<dots> = length (take n ?s)" using ds by (simp add: distinct_card)
  also have "\<dots> = n" using n by simp
  finally show ?thesis .
qed

lemma sql_trim_newest:
  assumes ok: "table_ok t" and k: "k \<in> set (tbl_rows (sql_trim t n))"
    and d: "d \<in> set (tbl_rows t)" "d \<notin> set (tbl_rows (sql_trim t n))"
  shows "row_timestamp d \<le> row_timestamp k"
proof -
  let ?s = "sort_key (\<lambda>r. - row_timestamp r) (tbl_rows t)"
  have k': "k \<in> set (take n ?s)" using k sql_trim_set[OF ok] by simp
  have "d \<in> set ?s" using d(1) by simp
  then have "d \<in> set (take n ?s) \<union> set (drop n ?s)"
    by (metis append_take_drop_id set_append)
  with d(2) sql_trim_set[OF ok] have d': "d \<in> set (drop n ?s)" by simp
  have "sorted (map (\<lambda>r. - row_timestamp r) ?s)" by (rule sorted_sort_key)
  from sorted_take_drop[OF this k' d'] show ?thesis by simp
qed

lemma sql_trim_subset: "set (tbl_rows (sql_trim t n)) \<subseteq> set (tbl_rows t)"
  by (auto simp: sql_trim_def)

subsection \<open>The two inserts\<close>

lemma buildInsertParams_Message:
  "buildInsertParams (Message_fields m) =
    ([''type'', ''timestamp'', ''chat_jid'', ''chat_name'', ''sender_jid'', ''sender_name'',
      ''is_group'', ''is_muted'', ''is_reply_to_me'', ''text''],
     replicate 10 ''?'',
     [GoString (Type m), GoInt64 (Timestamp m), GoString (ChatJID m), GoString (ChatName m),
      GoString (SenderJID m), GoString (SenderName m), GoBool (IsGroup m), GoBool (IsMuted m),
      GoBool (IsReplyToMe m), GoString (Text m)])"
  by (simp add: Message_fields_def numeral_eq_Suc)

lemma buildInsertParams_Call:
  "buildInsertParams (Call_fields c) =
    ([''timestamp'', ''call_id'', ''caller_jid'', ''caller_name'', ''is_group'', ''group_jid'',
      ''group_name''],
     replicate 7 ''?'',
     [GoInt64 (Call_Timestamp c), GoString (CallID c), GoString (CallerJID c),
      GoString (CallerName c), GoBool (Call_IsGroup c), GoString (GroupJID c),
      GoString (GroupName c)])"
  by (simp add: Call_fields_def numeral_eq_Suc)

lemma sql_insert_Message_rejected:
  assumes "tbl_name t = ''messages''" and "tbl_columns t = tbl_columns (messages initMessageDB)"
  shows "sql_insert t (fst (buildInsertParams (Message_fields m)))
            (snd (snd (buildInsertParams (Message_fields m))))
         = Inl ''table messages has no column named type''"
  using assms by (simp add: buildInsertParams_Message sql_insert_def initMessageDB_def)

lemma sql_insert_Call:
  assumes "tbl_columns t = tbl_columns (calls initMessageDB)"
  shows "sql_insert t (fst (buildInsertParams (Call_fields c)))
            (snd (snd (buildInsertParams (Call_fields c))))
         = Inr (t\<lparr>tbl_rows := tbl_rows t @ [(sql_next_id t, Call_cells c)],
                  tbl_seq := sql_next_id t\<rparr>, sql_next_id t)"
  using assms by (simp add: buildInsertParams_Call sql_insert_def initMessageDB_def Call_cells_def)

lemma saveMessage_rejected:
  assumes "db_ok db"
  shows "saveMessage db faults m =
    (Some (case faults StmtInsert of Some e \<Rightarrow> e
           | None \<Rightarrow> ''table messages has no column named type''), m, db)"
proof -
  obtain cs ps vs where b: "buildInsertParams (Message_fields m) = (cs, ps, vs)"
    by (cases "buildInsertParams (Message_fields m)") auto
  have "sql_insert (messages db) cs vs = Inl ''table messages has no column named type''"
    using sql_insert_Message_rejected[of "messages db" m] assms b by (simp add: db_ok_def)
  then show ?thesis
    by (simp add: saveMessage_def b split: option.splits)
qed

lemma saveCall_unfold:
  assumes "db_ok db"
  shows "saveCall db faults c =
    (case faults StmtInsert of
       Some e \<Rightarrow> (Some e, c, db)
     | None \<Rightarrow>
        (case faults StmtCount of
           Some e \<Rightarrow> (Some e, c\<lparr>Call_ID := sql_next_id (calls db)\<rparr>,
                        db\<lparr>calls := calls_inserted db c\<rparr>)
         | None \<Rightarrow>
            (if 200 < length (tbl_rows (calls_inserted db c)) then
               (case faults StmtDelete of
                  Some e \<Rightarrow> (Some e, c\<lparr>Call_ID := sql_next_id (calls db)\<rparr>,
                               db\<lparr>calls := calls_inserted db c\<rparr>)
                | None \<Rightarrow> (None, c\<lparr>Call_ID := sql_next_id (calls db)\<rparr>,
                            db\<lparr>calls := sql_trim (calls_inserted db c) 150\<rparr>))
             else (None, c\<lparr>Call_ID := sql_next_id (calls db)\<rparr>,
                   db\<lparr>calls := calls_inserted db c\<rparr>))))"
proof -
  obtain cs ps vs where b: "buildInsertParams (Call_fields c) = (cs, ps, vs)"
    by (cases "buildInsertParams (Call_fields c)") auto
  have "sql_insert (calls db) cs vs = Inr (calls_inserted db c, sql_next_id (calls db))"
    using sql_insert_Call[of "calls db" c] assms b by (simp add: db_ok_def calls_inserted_def)
  then show ?thesis
    by (simp add: saveCall_def b sql_count_def maxMessages_def trimToCount_def Let_def
             split: option.splits)
qed

lemma calls_inserted_ok: "db_ok db \<Longrightarrow> table_ok (calls_inserted db c)"
proof -
  assume ok: "db_ok db"
  have "sql_next_id (calls db) \<notin> fst ` set (tbl_rows (calls db))"
    using sql_next_id_fresh[of _ "calls db"] by force
  with ok show ?thesis by (simp add: calls_inserted_def table_ok_def db_ok_def)
qed

lemma saveCall_ok: "db_ok db \<Longrightarrow> db_ok (snd (snd (saveCall db faults c)))"
  using calls_inserted_ok[of db c] sql_trim_ok[of "calls_inserted db c" 150]
  by (auto simp: saveCall_unfold db_ok_def calls_inserted_def sql_trim_def split: option.splits)

lemma saveMessage_ok: "db_ok db \<Longrightarrow> db_ok (snd (snd (saveMessage db faults m)))"
  by (simp add: saveMessage_rejected)

lemma append_step_ok: "db_ok db \<Longrightarrow> db_ok (append_step db x)"
  by (cases x) (simp_all add: saveCall_ok saveMessage_ok)

lemma foldl_append_step_ok: "db_ok db \<Longrightarrow> db_ok (foldl append_step db ops)"
  by (induction ops arbitrary: db) (simp_all add: append_step_ok)

lemma initMessageDB_ok: "db_ok initMessageDB"
  by (simp add: db_ok_def table_ok_def initMessageDB_def)

lemma run_appends_ok: "db_ok (run_appends ops)"
  unfolding run_appends_def run_appends_from_def by (rule foldl_append_step_ok[OF initMessageDB_ok])

lemma run_appends_snoc: "run_appends (ops @ [x]) = append_step (run_appends ops) x"
  by (simp add: run_appends_def run_appends_from_def)

lemma saveCall_no_faults_small:
  assumes "db_ok db" and "length (tbl_rows (calls db)) < 200"
  shows "length (tbl_rows (calls (snd (snd (saveCall db no_faults c))))) = Suc (length (tbl_rows (calls db)))"
  using assms by (simp add: saveCall_unfold no_faults_def calls_inserted_def)

lemma calls_after_n_appends:
  "n \<le> 200 \<Longrightarrow> length (tbl_rows (calls (run_appends (replicate n (AppendCall no_faults c))))) = n"
proof (induction n)
  case 0
  show ?case by (simp add: run_appends_def run_appends_from_def initMessageDB_def)
next
  case (Suc n)
  have "replicate (Suc n) (AppendCall no_faults c) = replicate n (AppendCall no_faults c) @ [AppendCall no_faults c]"
    by (simp add: replicate_append_same)
  then show ?case
    using Suc saveCall_no_faults_small[OF run_appends_ok, of "replicate n (AppendCall no_faults c)" c]
    by (simp add: run_appends_snoc)
qed

lemma saveCall_no_faults_completes: "db_ok db \<Longrightarrow> fst (saveCall db no_faults c) = None"
  by (simp add: saveCall_unfold no_faults_def)

lemma sql_cells_lookup:
  "sql_cells tn cols binds = Inr cells \<Longrightarrow> k \<in> set (map col_name cols) \<Longrightarrow>
   map_of binds k = Some v \<Longrightarrow> map_of cells k = Some v"
proof (induction cols arbitrary: cells)
  case Nil
  then show ?case by simp
next
  case (Cons c cs)
  from Cons.prems(1) obtain x vs where
    x: "(case map_of binds (col_name c) of
             Some v \<Rightarrow> if sql_has_type (col_type c) v then Inr v
                       else Inl (''conversion not modelled: '' @ tn @ ''.'' @ col_name c)
           | None \<Rightarrow> (case col_default c of
                        Some d \<Rightarrow> Inr d
                      | None \<Rightarrow> Inl (''NOT NULL constraint failed: '' @ tn @ ''.'' @ col_name c)))
          = Inr x"
    and vs: "sql_cells tn cs binds = Inr vs" and cells: "cells = (col_name c, x) # vs"
    by (auto split: sum.splits)
  show ?case
  proof (cases "col_name c = k")
    case True
    with x Cons.prems(3) have "x = v" by (auto split: if_splits)
    with True cells show ?thesis by simp
  next
    case False
    with Cons.prems(2) have "k \<in> set (map col_name cs)" by auto
    from Cons.IH[OF vs this Cons.prems(3)] False cells show ?thesis by simp
  qed
qed

lemma sql_insert_names:
  assumes "sql_insert t columns vals = Inr (t1, i)" and "k \<in> set columns"
  shows "k \<in> set (map col_name (tbl_columns t))"
proof -
  from assms(1) have "filter (\<lambda>c. c \<notin> set (map col_name (tbl_columns t))) columns = []"
    by (auto simp: sql_insert_def split: if_splits list.splits)
  with assms(2) show ?thesis by (auto simp: filter_empty_conv)
qed

lemma sql_insert_row:
  assumes "sql_insert t columns vals = Inr (t1, i)"
    and "map_of (zip columns (map sql_bind vals)) ''timestamp'' = Some (SqlInt ts)"
  shows "\<exists>cells. tbl_rows t1 = tbl_rows t @ [(i, cells)] \<and> i = sql_next_id t
           \<and> row_timestamp (i, cells) = ts"
proof -
  from sql_insert_result[OF assms(1)] obtain cells where
    c: "sql_cells (tbl_name t) (tbl_columns t) (zip columns (map sql_bind vals)) = Inr cells"
    and t1: "t1 = t\<lparr>tbl_rows := tbl_rows t @ [(sql_next_id t, cells)], tbl_seq := sql_next_id t\<rparr>"
    and i: "i = sql_next_id t"
    by blast
  from assms(2) have "''timestamp'' \<in> set columns"
    by (meson map_of_SomeD set_zip_leftD)
  from sql_insert_names[OF assms(1) this] have "''timestamp'' \<in> set (map col_name (tbl_columns t))" .
  from sql_cells_lookup[OF c this assms(2)] have "map_of cells ''timestamp'' = Some (SqlInt ts)" .
  then show ?thesis using t1 i by (simp add: row_timestamp_def)
qed

lemma bounded_after_trim:
  assumes ok: "table_ok t1"
  shows "(let rows1 = tbl_rows t1;
              rows2 = tbl_rows (if 200 < length (tbl_rows t1) then sql_trim t1 150 else t1)
          in length rows2 \<le> 200
             \<and> (length rows1 \<le> 200 \<longrightarrow> rows2 = rows1)
             \<and> (200 < length rows1 \<longrightarrow>
                  length rows2 = 150 \<and> set rows2 \<subseteq> set rows1
                  \<and> (\<forall>k \<in> set rows2. \<forall>d \<in> set rows1 - set rows2.
                        row_timestamp d \<le> row_timestamp k)))"
proof (cases "200 < length (tbl_rows t1)")
  case True
  have len: "length (tbl_rows (sql_trim t1 150)) = 150"
    using True by (intro sql_trim_length[OF ok]) simp
  have sub: "set (tbl_rows (sql_trim t1 150)) \<subseteq> set (tbl_rows t1)"
    by (rule sql_trim_subset)
  have newest: "\<forall>k \<in> set (tbl_rows (sql_trim t1 150)).
                 \<forall>d \<in> set (tbl_rows t1) - set (tbl_rows (sql_trim t1 150)).
                   row_timestamp d \<le> row_timestamp k"
    using sql_trim_newest[OF ok] by blast
  from True len sub newest show ?thesis by (simp add: Let_def)
next
  case False
  then show ?thesis by (simp add: Let_def)
qed

lemma saveMessage_completes:
  assumes "fst (saveMessage db faults m) = None"
  shows "\<exists>t1 i. sql_insert (messages db) (fst (buildInsertParams (Message_fields m)))
                  (snd (snd (buildInsertParams (Message_fields m)))) = Inr (t1, i)
          \<and> saveMessage db faults m =
              (None, m\<lparr>ID := i\<rparr>,
               db\<lparr>messages := (if 200 < length (tbl_rows t1) then sql_trim t1 150 else t1)\<rparr>)"
  using assms
  by (auto simp: saveMessage_def Let_def sql_count_def maxMessages_def trimToCount_def
           split: prod.splits sum.splits option.splits if_splits)

lemma saveCall_completes:
  assumes "fst (saveCall db faults c) = None"
  shows "\<exists>t1 i. sql_insert (calls db) (fst (buildInsertParams (Call_fields c)))
                  (snd (snd (buildInsertParams (Call_fields c)))) = Inr (t1, i)
          \<and> saveCall db faults c =
              (None, c\<lparr>Call_ID := i\<rparr>,
               db\<lparr>calls := (if 200 < length (tbl_rows t1) then sql_trim t1 150 else t1)\<rparr>)"
  using assms
  by (auto simp: saveCall_def Let_def sql_count_def maxMessages_def trimToCount_def
           split: prod.splits sum.splits option.splits if_splits)

lemma Message_timestamp_bound:
  "map_of (zip (fst (buildInsertParams (Message_fields m)))
               (map sql_bind (snd (snd (buildInsertParams (Message_fields m))))))
     ''timestamp'' = Some (SqlInt (Timestamp m))"
  by (simp add: buildInsertParams_Message)

lemma Call_timestamp_bound:
  "map_of (zip (fst (buildInsertParams (Call_fields c)))
               (map sql_bind (snd (snd (buildInsertParams (Call_fields c))))))
     ''timestamp'' = Some (SqlInt (Call_Timestamp c))"
  by (simp add: buildInsertParams_Call)

lemma saveMessage_tables:
  "table_ok (messages db) \<Longrightarrow> table_ok (messages (snd (snd (saveMessage db faults m))))"
  "calls (snd (snd (saveMessage db faults m))) = calls db"
  by (auto simp: saveMessage_def Let_def split: prod.splits sum.splits option.splits
           intro: sql_insert_ok sql_trim_ok)

lemma saveCall_tables:
  "table_ok (calls db) \<Longrightarrow> table_ok (calls (snd (snd (saveCall db faults c))))"
  "messages (snd (snd (saveCall db faults c))) = messages db"
  by (auto simp: saveCall_def Let_def split: prod.splits sum.splits option.splits
           intro: sql_insert_ok sql_trim_ok)

lemma append_step_tables:
  "table_ok (messages db) \<and> table_ok (calls db) \<Longrightarrow>
   table_ok (messages (append_step db x)) \<and> table_ok (calls (append_step db x))"
  by (cases x) (simp_all add: saveMessage_tables saveCall_tables)

lemma run_appends_from_tables:
  "table_ok (messages db0) \<and> table_ok (calls db0) \<Longrightarrow>
   table_ok (messages (run_appends_from db0 ops)) \<and> table_ok (calls (run_appends_from db0 ops))"
  unfolding run_appends_from_def
proof (induction ops arbitrary: db0)
  case Nil
  then show ?case by simp
next
  case (Cons x xs)
  from append_step_tables[OF Cons.prems] Cons.IH[of "append_step db0 x"]
  show ?case by simp
qed

text \<open>
  Claim C1. Take any database in which no two rows of a table share an \<open>id\<close> (it is the
  primary key), run any sequence of appends on it, with any storage errors on the way,
  and append once more. For the table \<open>messages\<close> and \<open>saveMessage\<close>, and for the table
  \<open>calls\<close> and \<open>saveCall\<close>: when the save completes (returns no error), the insert has
  added one row with the \<open>id\<close> given to the record and the record's timestamp, and the
  table has at most 200 rows. When the insert made more than 200 rows, the trim ran and
  left exactly 150 of them, and no deleted row is newer by timestamp than a kept one;
  otherwise the table is the old one with the new row.

  (On the table \<open>messages\<close> as \<open>initMessageDB\<close> creates it no \<open>saveMessage\<close> completes,
  see \<open>saveMessage_rejected\<close>; there the table stays empty. The statement about
  messages therefore speaks about a file whose table has the columns that the insert
  names.)
\<close>

theorem bounded_store_after_append:
  assumes "table_ok (messages db0)" and "table_ok (calls db0)"
    and "db = run_appends_from db0 ops"
  shows "(fst (saveMessage db faults m) = None \<longrightarrow>
           (\<exists>row. fst row = ID (fst (snd (saveMessage db faults m)))
              \<and> row_timestamp row = Timestamp m
              \<and> (let rows1 = tbl_rows (messages db) @ [row];
                      rows2 = tbl_rows (messages (snd (snd (saveMessage db faults m))))
                  in length rows2 \<le> 200
                     \<and> (length rows1 \<le> 200 \<longrightarrow> rows2 = rows1)
                     \<and> (200 < length rows1 \<longrightarrow>
                          length rows2 = 150 \<and> set rows2 \<subseteq> set rows1
                          \<and> (\<forall>k \<in> set rows2. \<forall>d \<in> set rows1 - set rows2.
                                row_timestamp d \<le> row_timestamp k)))))
       \<and> (fst (saveCall db faults c) = None \<longrightarrow>
           (\<exists>row. fst row = Call_ID (fst (snd (saveCall db faults c)))
              \<and> row_timestamp row = Call_Timestamp c
              \<and> (let rows1 = tbl_rows (calls db) @ [row];
                      rows2 = tbl_rows (calls (snd (snd (saveCall db faults c))))
                  in length rows2 \<le> 200
                     \<and> (length rows1 \<le> 200 \<longrightarrow> rows2 = rows1)
                     \<and> (200 < length rows1 \<longrightarrow>
                          length rows2 = 150 \<and> set rows2 \<subseteq> set rows1
                          \<and> (\<forall>k \<in> set rows2. \<forall>d \<in> set rows1 - set rows2.
                                row_timestamp d \<le> row_timestamp k)))))"
proof (intro conjI impI)
  have ok: "table_ok (messages db)" "table_ok (calls db)"
    using run_appends_from_tables[of db0 ops] assms by simp_all
  {
    assume compl: "fst (saveMessage db faults m) = None"
    from saveMessage_completes[OF compl] obtain t1 i where
      ins: "sql_insert (messages db) (fst (buildInsertParams (Message_fields m)))
                  (snd (snd (buildInsertParams (Message_fields m)))) = Inr (t1, i)"
      and res: "saveMessage db faults m =
              (None, m\<lparr>ID := i\<rparr>,
               db\<lparr>messages := (if 200 < length (tbl_rows t1) then sql_trim t1 150 else t1)\<rparr>)"
      by blast
    from sql_insert_row[OF ins Message_timestamp_bound] obtain cells where
      rows1: "tbl_rows t1 = tbl_rows (messages db) @ [(i, cells)]"
      and ts: "row_timestamp (i, cells) = Timestamp m"
      by blast
    have ok1: "table_ok t1" using sql_insert_ok[OF ins ok(1)] .
    from bounded_after_trim[OF ok1] rows1 ts
    show "\<exists>row. fst row = ID (fst (snd (saveMessage db faults m)))
              \<and> row_timestamp row = Timestamp m
              \<and> (let rows1 = tbl_rows (messages db) @ [row];
                      rows2 = tbl_rows (messages (snd (snd (saveMessage db faults m))))
                  in length rows2 \<le> 200
                     \<and> (length rows1 \<le> 200 \<longrightarrow> rows2 = rows1)
                     \<and> (200 < length rows1 \<longrightarrow>
                          length rows2 = 150 \<and> set rows2 \<subseteq> set rows1
                          \<and> (\<forall>k \<in> set rows2. \<forall>d \<in> set rows1 - set rows2.
                                row_timestamp d \<le> row_timestamp k)))"
      unfolding res by (intro exI[of _ "(i, cells)"]) (simp add: Let_def)
  }
  {
    assume compl: "fst (saveCall db faults c) = None"
    from saveCall_completes[OF compl] obtain t1 i where
      ins: "sql_insert (calls db) (fst (buildInsertParams (Call_fields c)))
                  (snd (snd (buildInsertParams (Call_fields c)))) = Inr (t1, i)"
      and res: "saveCall db faults c =
              (None, c\<lparr>Call_ID := i\<rparr>,
               db\<lparr>calls := (if 200 < length (tbl_rows t1) then sql_trim t1 150 else t1)\<rparr>)"
      by blast
    from sql_insert_row[OF ins Call_timestamp_bound] obtain cells where
      rows1: "tbl_rows t1 = tbl_rows (calls db) @ [(i, cells)]"
      and ts: "row_timestamp (i, cells) = Call_Timestamp c"
      by blast
    have ok1: "table_ok t1" using sql_insert_ok[OF ins ok(2)] .
    from bounded_after_trim[OF ok1] rows1 ts
    show "\<exists>row. fst row = Call_ID (fst (snd (saveCall db faults c)))
              \<and> row_timestamp row = Call_Timestamp c
              \<and> (let rows1 = tbl_rows (calls db) @ [row];
                      rows2 = tbl_rows (calls (snd (snd (saveCall db faults c))))
                  in length rows2 \<le> 200
                     \<and> (length rows1 \<le> 200 \<longrightarrow> rows2 = rows1)
                     \<and> (200 < length rows1 \<longrightarrow>
                          length rows2 = 150 \<and> set rows2 \<subseteq> set rows1
                          \<and> (\<forall>k \<in> set rows2. \<forall>d \<in> set rows1 - set rows2.
                                row_timestamp d \<le> row_timestamp k)))"
      unfolding res by (intro exI[of _ "(i, cells)"]) (simp add: Let_def)
  }
qed

lemma sql_insert_Message_typed:
  assumes "tbl_columns t = tbl_columns (messages db_with_type_column)"
  shows "sql_insert t (fst (buildInsertParams (Message_fields m)))
            (snd (snd (buildInsertParams (Message_fields m))))
         = Inr (t\<lparr>tbl_rows := tbl_rows t @ [(sql_next_id t, Message_cells m)],
                  tbl_seq := sql_next_id t\<rparr>, sql_next_id t)"
  using assms
  by (simp add: buildInsertParams_Message sql_insert_def db_with_type_column_def
        initMessageDB_def Message_cells_def)

lemma saveMessage_typed:
  assumes "tbl_columns (messages db) = tbl_columns (messages db_with_type_column)"
  shows "saveMessage db no_faults m =
    (None, m\<lparr>ID := sql_next_id (messages db)\<rparr>,
     db\<lparr>messages :=
        (if 200 \<le> length (tbl_rows (messages db)) then
           sql_trim ((messages db)\<lparr>tbl_rows := tbl_rows (messages db)
                                      @ [(sql_next_id (messages db), Message_cells m)],
                                   tbl_seq := sql_next_id (messages db)\<rparr>) 150
         else (messages db)\<lparr>tbl_rows := tbl_rows (messages db)
                                      @ [(sql_next_id (messages db), Message_cells m)],
                                   tbl_seq := sql_next_id (messages db)\<rparr>)\<rparr>)"
proof -
  obtain cs ps vs where b: "buildInsertParams (Message_fields m) = (cs, ps, vs)"
    by (cases "buildInsertParams (Message_fields m)") auto
  have "sql_insert (messages db) cs vs
      = Inr ((messages db)\<lparr>tbl_rows := tbl_rows (messages db)
                                      @ [(sql_next_id (messages db), Message_cells m)],
                                   tbl_seq := sql_next_id (messages db)\<rparr>,
             sql_next_id (messages db))"
    using sql_insert_Message_typed[OF assms, of m] b by simp
  then show ?thesis
    by (simp add: saveMessage_def b sql_count_def maxMessages_def trimToCount_def Let_def
          no_faults_def)
qed

lemma run_appends_from_snoc:
  "run_appends_from db0 (ops @ [x]) = append_step (run_appends_from db0 ops) x"
  by (simp add: run_appends_from_def)

lemma messages_after_n_appends:
  "n \<le> 200 \<Longrightarrow>
   tbl_columns (messages (run_appends_from db_with_type_column (replicate n (AppendMessage no_faults m))))
     = tbl_columns (messages db_with_type_column)
   \<and> length (tbl_rows (messages (run_appends_from db_with_type_column
        (replicate n (AppendMessage no_faults m))))) = n"
proof (induction n)
  case 0
  show ?case by (simp add: run_appends_from_def db_with_type_column_def initMessageDB_def)
next
  case (Suc n)
  have r: "replicate (Suc n) (AppendMessage no_faults m)
           = replicate n (AppendMessage no_faults m) @ [AppendMessage no_faults m]"
    by (simp add: replicate_append_same)
  from Suc have ih: "tbl_columns (messages (run_appends_from db_with_type_column
                        (replicate n (AppendMessage no_faults m))))
     = tbl_columns (messages db_with_type_column)"
    "length (tbl_rows (messages (run_appends_from db_with_type_column
        (replicate n (AppendMessage no_faults m))))) = n" "n < 200"
    by simp_all
  show ?case
    unfolding r run_appends_from_snoc
    using ih by (simp add: saveMessage_typed[OF ih(1)])
qed

text \<open>
  The theorem at the 201st append without storage errors, for both tables: 200 calls and
  then one more on the database of \<open>initMessageDB\<close>, and 200 messages and then one more
  on a database whose table \<open>messages\<close> has the column \<open>type\<close>. Each append completes,
  the trim runs and leaves 150 rows.
\<close>

theorem bounded_store_after_append_witness:
  "table_ok (messages initMessageDB) \<and> table_ok (calls initMessageDB)
   \<and> fst (saveCall (run_appends_from initMessageDB
              (replicate 200 (AppendCall no_faults example_call_record)))
            no_faults (example_call_record\<lparr>Call_Timestamp := 1700000300\<rparr>)) = None
   \<and> length (tbl_rows (calls (snd (snd (saveCall (run_appends_from initMessageDB
              (replicate 200 (AppendCall no_faults example_call_record)))
            no_faults (example_call_record\<lparr>Call_Timestamp := 1700000300\<rparr>)))))) = 150
   \<and> table_ok (messages db_with_type_column) \<and> table_ok (calls db_with_type_column)
   \<and> fst (saveMessage (run_appends_from db_with_type_column
              (replicate 200 (AppendMessage no_faults example_message_record)))
            no_faults (example_message_record\<lparr>Timestamp := 1700000300\<rparr>)) = None
   \<and> length (tbl_rows (messages (snd (snd (saveMessage (run_appends_from db_with_type_column
              (replicate 200 (AppendMessage no_faults example_message_record)))
            no_faults (example_message_record\<lparr>Timestamp := 1700000300\<rparr>)))))) = 150"
proof -
  let ?cops = "replicate 200 (AppendCall no_faults example_call_record)"
  let ?c = "example_call_record\<lparr>Call_Timestamp := 1700000300\<rparr>"
  let ?mops = "replicate 200 (AppendMessage no_faults example_message_record)"
  let ?m = "example_message_record\<lparr>Timestamp := 1700000300\<rparr>"
  have i: "table_ok (messages initMessageDB)" "table_ok (calls initMessageDB)"
    by (simp_all add: table_ok_def initMessageDB_def)
  have t: "table_ok (messages db_with_type_column)" "table_ok (calls db_with_type_column)"
    by (simp_all add: table_ok_def db_with_type_column_def initMessageDB_def)
  have rc: "run_appends_from initMessageDB ?cops = run_appends ?cops"
    by (simp add: run_appends_def)
  have hc: "fst (saveCall (run_appends_from initMessageDB ?cops) no_faults ?c) = None"
    unfolding rc by (rule saveCall_no_faults_completes[OF run_appends_ok])
  have nc: "length (tbl_rows (calls (run_appends_from initMessageDB ?cops))) = 200"
    unfolding rc by (rule calls_after_n_appends) simp
  have mm: "tbl_columns (messages (run_appends_from db_with_type_column ?mops))
              = tbl_columns (messages db_with_type_column)"
    "length (tbl_rows (messages (run_appends_from db_with_type_column ?mops))) = 200"
    using messages_after_n_appends[of 200 example_message_record] by simp_all
  have hm: "fst (saveMessage (run_appends_from db_with_type_column ?mops) no_faults ?m) = None"
    by (simp add: saveMessage_typed[OF mm(1)])
  from bounded_store_after_append[OF i refl, of ?cops no_faults ?m ?c] hc nc
  have c150: "length (tbl_rows (calls (snd (snd (saveCall (run_appends_from initMessageDB ?cops)
            no_faults ?c))))) = 150"
    by (auto simp: Let_def)
  from bounded_store_after_append[OF t refl, of ?mops no_faults ?m ?c] hm mm(2)
  have m150: "length (tbl_rows (messages (snd (snd (saveMessage
            (run_appends_from db_with_type_column ?mops) no_faults ?m))))) = 150"
    by (auto simp: Let_def)
  from i t hc hm c150 m150 show ?thesis by simp
qed

text \<open>
  The bound holds for an append that completes. An append that is interrupted after its
  insert does not trim: when the count statement fails on the 201st row, \<open>saveCall\<close>
  returns that error and the table is left with 201 rows.
\<close>

lemma interrupted_append_leaves_201:
  "fst (saveCall (run_appends (replicate 200 (AppendCall no_faults c)))
          (no_faults(StmtCount := Some ''disk I/O error'')) c) = Some ''disk I/O error''
   \<and> length (tbl_rows (calls (snd (snd (saveCall (run_appends (replicate 200 (AppendCall no_faults c)))
          (no_faults(StmtCount := Some ''disk I/O error'')) c))))) = 201"
  using calls_after_n_appends[of 200 c]
  by (simp add: saveCall_unfold[OF run_appends_ok] no_faults_def calls_inserted_def)

text \<open>
  What the insert of \<open>saveCall\<close> writes: one row with a fresh \<open>id\<close> and, under each
  column name, the value of the field of the call with that tag.
\<close>

lemma saveCall_writes_fields:
  assumes "db_ok db" and "length (tbl_rows (calls db)) < 200"
  shows "saveCall db no_faults c =
           (None, c\<lparr>Call_ID := sql_next_id (calls db)\<rparr>,
            db\<lparr>calls := (calls db)\<lparr>tbl_rows := tbl_rows (calls db)
                                        @ [(sql_next_id (calls db), Call_cells c)],
                                      tbl_seq := sql_next_id (calls db)\<rparr>\<rparr>)"
  using assms by (simp add: saveCall_unfold no_faults_def calls_inserted_def)

text \<open>
  Claim C4, evaluated on a message: on the database that \<open>initMessageDB\<close> creates,
  \<open>saveMessage\<close> without any storage error returns the error of the engine and leaves
  the database as it was. The insert names the column \<open>type\<close> (the tag of the field
  \<open>Type\<close> of \<open>Message\<close>), which the table \<open>messages\<close> does not have, so no row is
  written and there is nothing to read back. (For a call the row is written field by
  field, see \<open>saveCall_writes_fields\<close>.)
\<close>

theorem message_insert_rejected:
  "saveMessage initMessageDB no_faults
     \<lparr>Type = ''message'', ID = 0, Timestamp = 1700000100,
      ChatJID = ''15550111@s.whatsapp.net'', ChatName = ''Ann'',
      SenderJID = ''15550111@s.whatsapp.net'', SenderName = ''Ann'', IsGroup = False,
      IsMuted = False, IsReplyToMe = False, Text = ''hello''\<rparr>
   = (Some ''table messages has no column named type'',
      \<lparr>Type = ''message'', ID = 0, Timestamp = 1700000100,
       ChatJID = ''15550111@s.whatsapp.net'', ChatName = ''Ann'',
       SenderJID = ''15550111@s.whatsapp.net'', SenderName = ''Ann'', IsGroup = False,
       IsMuted = False, IsReplyToMe = False, Text = ''hello''\<rparr>,
      initMessageDB)"
  by (simp add: saveMessage_rejected[OF initMessageDB_ok] no_faults_def)

section \<open>Properties of the classifier\<close>

subsection \<open>The parts of \<open>handleMessage\<close>\<close>

lemma handleMessage_cases:
  "handleMessage a w msg = (if classifierDrops a w msg then (a, []) else keptOutcome a w msg)"
  by (simp add: handleMessage_def classifierDrops_def keptOutcome_def keptMessage_def Let_def)

lemma handleCallOffer_eq:
  "handleCallOffer a w evt =
     (case saveCall (msgDB a) (dbFaults w) (builtCall w evt) of
        (err, call1, db1) \<Rightarrow>
          (a\<lparr>msgDB := db1\<rparr>,
           (case err of Some e \<Rightarrow> [Stderr (''Failed to save call: '' @ e @ newline)] | None \<Rightarrow> [])))"
  by (simp add: handleCallOffer_def builtCall_def Let_def)

lemma handleCallOfferNotice_eq: "handleCallOfferNotice a w evt = handleCallOffer a w evt"
  by (simp add: handleCallOffer_def handleCallOfferNotice_def)

lemma saveMessage_keeps_fields:
  "fst (snd (saveMessage db faults m)) = m\<lparr>ID := ID (fst (snd (saveMessage db faults m)))\<rparr>"
  by (simp add: saveMessage_def Let_def split: prod.splits sum.splits option.splits)

lemma saveMessage_Text: "Text (fst (snd (saveMessage db faults m))) = Text m"
  by (subst saveMessage_keeps_fields) simp

lemma keptMessage_Text: "Text (keptMessage w msg) \<noteq> []"
  by (simp add: keptMessage_def)

lemma sendAttentionWindow_cases:
  "sendAttentionWindow w =
    (case attentionDial w of
       Some e \<Rightarrow> ([AttentionDial], Some e)
     | None \<Rightarrow> ([AttentionDial, AttentionWrite attentionCommand, AttentionClose], attentionWrite w))"
  by (simp add: sendAttentionWindow_def)



lemma broadcastMessage_only_writes:
  "ConnWrite c ev \<in> set (broadcastMessage a w m) \<Longrightarrow>
   c \<in> set (socketConns a) \<and> ev = \<lparr>event_Type = ''message'', event_Data = MessageData m\<rparr>"
  by (auto simp: broadcastMessage_def sendAttentionWindow_def Let_def split: option.splits prod.splits)

lemma keptOutcome_effects:
  "snd (keptOutcome a w msg) =
    (case fst (saveMessage (msgDB a) (dbFaults w) (keptMessage w msg)) of
       Some e \<Rightarrow> [Stderr (''Failed to save message: '' @ e @ newline)]
     | None \<Rightarrow> [])
    @ broadcastMessage a w (fst (snd (saveMessage (msgDB a) (dbFaults w) (keptMessage w msg))))"
  by (simp add: keptOutcome_def split: prod.splits)



subsection \<open>Facts about the concrete inputs\<close>





lemma example_info:
  "IsFromMe (Info (example_message f p ms)) = f"
  "Server (Chat (Info (example_message f p ms))) = ''s.whatsapp.net''"
  "IncludeMutedMessages (config example_app) = False"
  "socketConns example_app = [7]"
  by (simp_all add: example_message_def user_jid_def example_app_def)

subsection \<open>Mute filter\<close>




subsection \<open>Self-originated messages\<close>

text \<open>
  Claim C3. A message event whose \<open>IsFromMe\<close> flag is set is dropped by \<open>handleEvent\<close>:
  the state, with both tables, is returned as it was, and nothing is done, so nothing is
  written to any peer. (The flag exists on message events only; the call events carry
  no such flag.)
\<close>

theorem self_originated_dropped:
  "IsFromMe (Info msg) \<Longrightarrow> handleEvent a w (EvMessage msg) = (a, [])"
  by (simp add: handleMessage_cases classifierDrops_def)

text \<open>
  The theorem at a self-originated message that replies to the own identity.
\<close>

theorem self_originated_dropped_witness:
  "IsFromMe (Info (example_message True ''15550100@s.whatsapp.net'' []))
   \<and> handleEvent example_app example_world
        (EvMessage (example_message True ''15550100@s.whatsapp.net'' [])) = (example_app, [])"
  using self_originated_dropped[of "example_message True ''15550100@s.whatsapp.net'' []"
          example_app example_world]
  by (simp add: example_info)

subsection \<open>Display text\<close>

lemma handleMessage_writes_text:
  assumes "ConnWrite c ev \<in> set (snd (handleMessage a w msg))"
  shows "\<exists>m. event_Data ev = MessageData m \<and> Text m = Text (keptMessage w msg)"
proof (cases "classifierDrops a w msg")
  case True
  with assms show ?thesis by (simp add: handleMessage_cases)
next
  case False
  let ?m1 = "fst (snd (saveMessage (msgDB a) (dbFaults w) (keptMessage w msg)))"
  from assms False have "ConnWrite c ev \<in> set (broadcastMessage a w ?m1)"
    by (auto simp: handleMessage_cases keptOutcome_effects split: option.splits)
  then have "ev = \<lparr>event_Type = ''message'', event_Data = MessageData ?m1\<rparr>"
    by (simp add: broadcastMessage_only_writes)
  then show ?thesis by (simp add: saveMessage_Text)
qed

text \<open>
  Claim C7. Every event that \<open>handleMessage\<close> writes to a peer carries a message whose
  text is not empty, and the text of the message built for a kept event is never empty.
  An image with the caption \<open>hello\<close> and no text gives \<open>[Image] hello\<close>, an image
  without caption gives \<open>[Image]\<close>; video, document, audio, sticker, contact and
  location give their labels, and a message with none of these parts gives
  \<open>[Media/Other]\<close>.
\<close>

theorem display_text_never_empty:
  "(ConnWrite c ev \<in> set (snd (handleMessage a w msg))
      \<longrightarrow> (\<exists>m. event_Data ev = MessageData m \<and> Text m \<noteq> []))
   \<and> Text (keptMessage w msg) \<noteq> []
   \<and> Text (keptMessage w \<lparr>Info = i, GetMessage = Some (emptyMessage\<lparr>GetImageMessage :=
        Some \<lparr>GetContextInfo = ctx, GetCaption = ''hello''\<rparr>\<rparr>)\<rparr>) = ''[Image] hello''
   \<and> Text (keptMessage w \<lparr>Info = i, GetMessage = Some (emptyMessage\<lparr>GetImageMessage :=
        Some \<lparr>GetContextInfo = ctx, GetCaption = []\<rparr>\<rparr>)\<rparr>) = ''[Image]''
   \<and> Text (keptMessage w \<lparr>Info = i, GetMessage = Some (emptyMessage\<lparr>GetVideoMessage :=
        Some \<lparr>GetContextInfo = ctx, GetCaption = cap\<rparr>\<rparr>)\<rparr>)
        = (if cap = [] then ''[Video]'' else ''[Video] '' @ cap)
   \<and> Text (keptMessage w \<lparr>Info = i, GetMessage = Some (emptyMessage\<lparr>GetDocumentMessage :=
        Some \<lparr>GetContextInfo = ctx, GetFileName = name\<rparr>\<rparr>)\<rparr>) = ''[Document] '' @ name
   \<and> Text (keptMessage w \<lparr>Info = i, GetMessage = Some (emptyMessage\<lparr>GetAudioMessage :=
        Some \<lparr>GetContextInfo = ctx, GetPTT = ptt\<rparr>\<rparr>)\<rparr>)
        = (if ptt then ''[Voice Message]'' else ''[Audio]'')
   \<and> Text (keptMessage w \<lparr>Info = i, GetMessage = Some (emptyMessage\<lparr>GetStickerMessage :=
        Some \<lparr>GetContextInfo = ctx\<rparr>\<rparr>)\<rparr>) = ''[Sticker]''
   \<and> Text (keptMessage w \<lparr>Info = i, GetMessage = Some (emptyMessage\<lparr>GetContactMessage :=
        Some \<lparr>GetDisplayName = name\<rparr>\<rparr>)\<rparr>) = ''[Contact] '' @ name
   \<and> Text (keptMessage w \<lparr>Info = i, GetMessage = Some (emptyMessage\<lparr>GetLocationMessage :=
        Some ()\<rparr>)\<rparr>) = ''[Location]''
   \<and> Text (keptMessage w \<lparr>Info = i, GetMessage = Some emptyMessage\<rparr>) = ''[Media/Other]''
   \<and> Text (keptMessage w \<lparr>Info = i, GetMessage = None\<rparr>) = ''[Media/Other]''"
proof -
  have w: "ConnWrite c ev \<in> set (snd (handleMessage a w msg))
      \<longrightarrow> (\<exists>m. event_Data ev = MessageData m \<and> Text m \<noteq> [])"
    using handleMessage_writes_text[of c ev a w msg] keptMessage_Text[of w msg] by auto
  show ?thesis
    by (intro conjI w keptMessage_Text)
       (simp_all add: keptMessage_def extractText_def emptyMessage_def)
qed

text \<open>
  The theorem at a kept image message with the caption \<open>hello\<close>: the event written to
  peer 7 carries the text \<open>[Image] hello\<close>.
\<close>

theorem display_text_never_empty_witness:
  "ConnWrite 7 \<lparr>event_Type = ''message'', event_Data = MessageData
       \<lparr>Type = ''message'', ID = 0, Timestamp = 1700000100, ChatJID = ''15550111@s.whatsapp.net'',
        ChatName = ''15550111'', SenderJID = ''15550111@s.whatsapp.net'', SenderName = ''Ann'',
        IsGroup = False, IsMuted = True, IsReplyToMe = True, Text = ''[Image] hello''\<rparr>\<rparr>
     \<in> set (snd (handleMessage example_app example_world
                    (example_message False ''15550100@s.whatsapp.net'' [])))
   \<and> (\<exists>m. MessageData
       \<lparr>Type = ''message'', ID = 0, Timestamp = 1700000100, ChatJID = ''15550111@s.whatsapp.net'',
        ChatName = ''15550111'', SenderJID = ''15550111@s.whatsapp.net'', SenderName = ''Ann'',
        IsGroup = False, IsMuted = True, IsReplyToMe = True, Text = ''[Image] hello''\<rparr>
         = MessageData m \<and> Text m \<noteq> [])"
proof -
  have h: "ConnWrite 7 \<lparr>event_Type = ''message'', event_Data = MessageData
       \<lparr>Type = ''message'', ID = 0, Timestamp = 1700000100, ChatJID = ''15550111@s.whatsapp.net'',
        ChatName = ''15550111'', SenderJID = ''15550111@s.whatsapp.net'', SenderName = ''Ann'',
        IsGroup = False, IsMuted = True, IsReplyToMe = True, Text = ''[Image] hello''\<rparr>\<rparr>
     \<in> set (snd (handleMessage example_app example_world
                    (example_message False ''15550100@s.whatsapp.net'' [])))"
    by code_simp
  from display_text_never_empty[of 7 _ example_app example_world
         "example_message False ''15550100@s.whatsapp.net'' []"] h
  show ?thesis by simp
qed

subsection \<open>Own identity in either form\<close>








section \<open>Properties of persistence and broadcast\<close>

lemma run_events_exit:
  "list_ex is_Exit (snd (handleEvent a w e)) \<Longrightarrow> run_events a ((w, e) # rest) = handleEvent a w e"
  by (cases "handleEvent a w e") simp

text \<open>
  Claim C10. For a message that the classifier keeps, \<open>handleMessage\<close> does, in this
  order: the log line of a failed save (if the save failed), one write of the event to
  every connected peer, the dial of the attention socket and, when the dial succeeds, the
  write of the attention command. When the dial or that write fails, the error is logged,
  the process exits with status 1, and no later event is handled.
\<close>

theorem attention_failure_exits:
  assumes "\<not> classifierDrops a w msg"
  shows
   "(let saved = saveMessage (msgDB a) (dbFaults w) (keptMessage w msg);
         saveLog = (case fst saved of
                      Some e \<Rightarrow> [Stderr (''Failed to save message: '' @ e @ newline)]
                    | None \<Rightarrow> []);
         writes = map (\<lambda>c. ConnWrite c \<lparr>event_Type = ''message'',
                                          event_Data = MessageData (fst (snd saved))\<rparr>)
                      (socketConns a);
         effs = snd (handleMessage a w msg)
     in (case attentionDial w of
           Some e \<Rightarrow>
             effs = saveLog @ writes
                    @ [AttentionDial, Stderr (''Failed to send attention: '' @ e @ newline), Exit 1]
             \<and> run_events a ((w, EvMessage msg) # rest) = handleMessage a w msg
         | None \<Rightarrow>
            (case attentionWrite w of
               Some e \<Rightarrow>
                 effs = saveLog @ writes
                        @ [AttentionDial, AttentionWrite attentionCommand, AttentionClose,
                           Stderr (''Failed to send attention: '' @ e @ newline), Exit 1]
                 \<and> run_events a ((w, EvMessage msg) # rest) = handleMessage a w msg
             | None \<Rightarrow>
                 effs = saveLog @ writes
                        @ [AttentionDial, AttentionWrite attentionCommand, AttentionClose])))"
proof -
  have effs: "snd (handleMessage a w msg) =
     (case fst (saveMessage (msgDB a) (dbFaults w) (keptMessage w msg)) of
        Some e \<Rightarrow> [Stderr (''Failed to save message: '' @ e @ newline)]
      | None \<Rightarrow> [])
     @ map (\<lambda>c. ConnWrite c \<lparr>event_Type = ''message'',
              event_Data = MessageData (fst (snd (saveMessage (msgDB a) (dbFaults w) (keptMessage w msg))))\<rparr>)
           (socketConns a)
     @ (case sendAttentionWindow w of
          (effs, Some err) \<Rightarrow>
            effs @ [Stderr (''Failed to send attention: '' @ err @ newline), Exit 1]
        | (effs, None) \<Rightarrow> effs)"
    using assms
    by (simp add: handleMessage_cases keptOutcome_effects broadcastMessage_def Let_def
             split: prod.splits option.splits)
  show ?thesis
  proof (cases "attentionDial w")
    case (Some e)
    have e1: "snd (handleMessage a w msg) =
        (case fst (saveMessage (msgDB a) (dbFaults w) (keptMessage w msg)) of
           Some e \<Rightarrow> [Stderr (''Failed to save message: '' @ e @ newline)]
         | None \<Rightarrow> [])
        @ map (\<lambda>c. ConnWrite c \<lparr>event_Type = ''message'',
              event_Data = MessageData (fst (snd (saveMessage (msgDB a) (dbFaults w) (keptMessage w msg))))\<rparr>)
           (socketConns a)
        @ [AttentionDial, Stderr (''Failed to send attention: '' @ e @ newline), Exit 1]"
      using Some by (simp add: effs sendAttentionWindow_def)
    have "list_ex is_Exit (snd (handleEvent a w (EvMessage msg)))"
      by (simp add: e1 list_ex_iff)
    from run_events_exit[OF this] e1 Some show ?thesis by (simp add: Let_def)
  next
    case None
    show ?thesis
    proof (cases "attentionWrite w")
      case (Some e)
      have e1: "snd (handleMessage a w msg) =
          (case fst (saveMessage (msgDB a) (dbFaults w) (keptMessage w msg)) of
             Some e \<Rightarrow> [Stderr (''Failed to save message: '' @ e @ newline)]
           | None \<Rightarrow> [])
          @ map (\<lambda>c. ConnWrite c \<lparr>event_Type = ''message'',
                event_Data = MessageData (fst (snd (saveMessage (msgDB a) (dbFaults w) (keptMessage w msg))))\<rparr>)
             (socketConns a)
          @ [AttentionDial, AttentionWrite attentionCommand, AttentionClose,
             Stderr (''Failed to send attention: '' @ e @ newline), Exit 1]"
        using None Some by (simp add: effs sendAttentionWindow_def)
      have "list_ex is_Exit (snd (handleEvent a w (EvMessage msg)))"
        by (simp add: e1 list_ex_iff)
      from run_events_exit[OF this] e1 None Some show ?thesis by (simp add: Let_def)
    next
      case n2: None
      with None show ?thesis by (simp add: effs sendAttentionWindow_def Let_def)
    qed
  qed
qed

text \<open>
  The theorem at a kept message when the dial of the attention socket is refused: the
  peer gets the event, the process exits with status 1, and the call offer that follows
  is not handled.
\<close>

theorem attention_failure_exits_witness:
  "\<not> classifierDrops example_app (example_world\<lparr>attentionDial := Some ''connection refused''\<rparr>)
        (example_message False ''15550100@s.whatsapp.net'' [])
   \<and> snd (handleMessage example_app (example_world\<lparr>attentionDial := Some ''connection refused''\<rparr>)
        (example_message False ''15550100@s.whatsapp.net'' []))
      = [Stderr (''Failed to save message: table messages has no column named type'' @ newline),
         ConnWrite 7 \<lparr>event_Type = ''message'', event_Data = MessageData
           \<lparr>Type = ''message'', ID = 0, Timestamp = 1700000100,
            ChatJID = ''15550111@s.whatsapp.net'', ChatName = ''15550111'',
            SenderJID = ''15550111@s.whatsapp.net'', SenderName = ''Ann'', IsGroup = False,
            IsMuted = True, IsReplyToMe = True, Text = ''[Image] hello''\<rparr>\<rparr>,
         AttentionDial,
         Stderr (''Failed to send attention: connection refused'' @ newline),
         Exit 1]
   \<and> run_events example_app
        [(example_world\<lparr>attentionDial := Some ''connection refused''\<rparr>,
          EvMessage (example_message False ''15550100@s.whatsapp.net'' [])),
         (example_world, EvCallOffer example_call)]
      = handleMessage example_app (example_world\<lparr>attentionDial := Some ''connection refused''\<rparr>)
          (example_message False ''15550100@s.whatsapp.net'' [])"
  (is "\<not> classifierDrops _ ?w ?m \<and> _ \<and> _")
proof -
  have h: "\<not> classifierDrops example_app ?w ?m"
    by code_simp
  have d: "attentionDial ?w = Some ''connection refused''"
    by simp
  have s1: "fst (saveMessage (msgDB example_app) (dbFaults ?w) (keptMessage ?w ?m))
             = Some ''table messages has no column named type''"
    by code_simp
  have s2: "fst (snd (saveMessage (msgDB example_app) (dbFaults ?w) (keptMessage ?w ?m)))
             = \<lparr>Type = ''message'', ID = 0, Timestamp = 1700000100,
            ChatJID = ''15550111@s.whatsapp.net'', ChatName = ''15550111'',
            SenderJID = ''15550111@s.whatsapp.net'', SenderName = ''Ann'', IsGroup = False,
            IsMuted = True, IsReplyToMe = True, Text = ''[Image] hello''\<rparr>"
    by code_simp
  from attention_failure_exits[OF h, of "[(example_world, EvCallOffer example_call)]"] h d s1 s2
  show ?thesis
    by (simp add: Let_def example_info)
qed

text \<open>
  The call handlers never write to a peer, whatever the save returns: \<open>broadcastCall\<close>
  has no caller. And on a database in the state that the appends leave it in, a kept
  message is never stored: its save fails, is logged, and the broadcast follows.
\<close>

lemma call_events_never_broadcast:
  "\<not> list_ex is_ConnWrite (snd (handleEvent a w (EvCallOffer evt)))"
  "\<not> list_ex is_ConnWrite (snd (handleEvent a w (EvCallOfferNotice evt)))"
  by (simp_all add: handleCallOfferNotice_eq handleCallOffer_eq split: prod.splits option.splits)

lemma kept_message_never_persisted:
  "db_ok (msgDB a) \<Longrightarrow> msgDB (fst (handleMessage a w msg)) = msgDB a"
  by (simp add: handleMessage_cases keptOutcome_def saveMessage_rejected)

lemma kept_message_save_logged:
  "db_ok (msgDB a) \<Longrightarrow> \<not> classifierDrops a w msg \<Longrightarrow>
   \<exists>e. hd (snd (handleMessage a w msg)) = Stderr (''Failed to save message: '' @ e @ newline)"
  by (simp add: handleMessage_cases keptOutcome_def saveMessage_rejected)

text \<open>
  Claim C5, evaluated on a call offer whose save fails, with peer 7 connected: the error
  is logged, the state is unchanged, and nothing is written to the peer.
\<close>

theorem failed_call_save_not_broadcast:
  "handleEvent example_app (example_world\<lparr>dbFaults := (\<lambda>s. Some ''disk I/O error'')\<rparr>)
     (EvCallOffer example_call)
   = (example_app, [Stderr (''Failed to save call: disk I/O error'' @ newline)])"
  by code_simp

text \<open>
  Claim C6, evaluated with peer 7 connected and no storage error. A call offer is stored
  as row 1 of \<open>calls\<close> and nothing is written to the peer. A kept message is written
  to the peer once, with \<open>ID\<close> 0, but it is not stored: the table \<open>messages\<close> stays
  empty and the failed save is logged.
\<close>

theorem call_persisted_not_broadcast:
  "socketConns example_app = [7]
   \<and> snd (handleEvent example_app example_world (EvCallOffer example_call)) = []
   \<and> tbl_rows (calls (msgDB (fst (handleEvent example_app example_world (EvCallOffer example_call)))))
      = [(1, [(''timestamp'', SqlInt 1700000200), (''call_id'', SqlStr ''CALL1''),
              (''caller_jid'', SqlStr ''15550111@s.whatsapp.net''),
              (''caller_name'', SqlStr ''15550111''), (''is_group'', SqlInt 0),
              (''group_jid'', SqlStr []), (''group_name'', SqlStr [])])]
   \<and> tbl_rows (messages (msgDB (fst (handleEvent example_app example_world
        (EvMessage (example_message False ''15550100@s.whatsapp.net'' [])))))) = []
   \<and> snd (handleEvent example_app example_world
        (EvMessage (example_message False ''15550100@s.whatsapp.net'' [])))
      = [Stderr (''Failed to save message: table messages has no column named type'' @ newline),
         ConnWrite 7 \<lparr>event_Type = ''message'', event_Data = MessageData
           \<lparr>Type = ''message'', ID = 0, Timestamp = 1700000100,
            ChatJID = ''15550111@s.whatsapp.net'', ChatName = ''15550111'',
            SenderJID = ''15550111@s.whatsapp.net'', SenderName = ''Ann'', IsGroup = False,
            IsMuted = True, IsReplyToMe = True, Text = ''[Image] hello''\<rparr>\<rparr>,
         AttentionDial, AttentionWrite attentionCommand, AttentionClose]"
  by code_simp

section \<open>Properties of the command channel\<close>

lemma socketLoop_append: "socketLoop w (xs @ ys) = socketLoop w xs @ socketLoop w ys"
  by (induction xs) simp_all

lemma sendMessage_effects:
  "\<not> list_ex is_ConnClose (fst (sendMessage w j t)) \<and> \<not> list_ex is_Exit (fst (sendMessage w j t))"
  by (simp add: sendMessage_def Let_def split: sum.splits option.splits)

lemma replyToMessage_effects:
  "\<not> list_ex is_ConnClose (fst (replyToMessage w j i s t))
   \<and> \<not> list_ex is_Exit (fst (replyToMessage w j i s t))"
  by (simp add: replyToMessage_def Let_def split: sum.splits option.splits)

lemma socketCommand_effects:
  "\<not> list_ex is_ConnClose (socketCommand w line) \<and> \<not> list_ex is_Exit (socketCommand w line)"
proof (cases "jsonUnmarshal w line")
  case (Inl err)
  then show ?thesis by (simp add: socketCommand_def)
next
  case (Inr cmd)
  obtain e1 r1 where s: "sendMessage w (cmd_ChatJID cmd) (cmd_Text cmd) = (e1, r1)"
    by (cases "sendMessage w (cmd_ChatJID cmd) (cmd_Text cmd)") auto
  obtain e2 r2 where r: "replyToMessage w (cmd_ChatJID cmd) (cmd_MessageID cmd)
      (cmd_SenderJID cmd) (cmd_Text cmd) = (e2, r2)"
    by (cases "replyToMessage w (cmd_ChatJID cmd) (cmd_MessageID cmd)
      (cmd_SenderJID cmd) (cmd_Text cmd)") auto
  have "\<not> list_ex is_ConnClose e1 \<and> \<not> list_ex is_Exit e1"
    using sendMessage_effects[of w "cmd_ChatJID cmd" "cmd_Text cmd"] s by simp
  moreover have "\<not> list_ex is_ConnClose e2 \<and> \<not> list_ex is_Exit e2"
    using replyToMessage_effects[of w "cmd_ChatJID cmd" "cmd_MessageID cmd"
      "cmd_SenderJID cmd" "cmd_Text cmd"] r by simp
  ultimately show ?thesis
    using Inr s r by (simp add: socketCommand_def split: option.splits)
qed

lemma socketLoop_effects:
  "\<not> list_ex is_ConnClose (socketLoop w lines) \<and> \<not> list_ex is_Exit (socketLoop w lines)"
  by (induction lines) (simp_all add: socketCommand_effects)

lemma scanLines_all_short:
  "(\<forall>l \<in> set sent. length l < maxScanTokenSize) \<Longrightarrow> scanLines sent = map dropCR sent"
  by (induction sent) simp_all

lemma scanLines_stops:
  "(\<forall>l \<in> set before. length l < maxScanTokenSize) \<Longrightarrow> maxScanTokenSize \<le> length long \<Longrightarrow>
   scanLines (before @ long # after) = map dropCR before"
  by (induction before) simp_all

text \<open>
  Claim C9, amended. The scanner delivers every line that the peer has sent, without its
  carriage return, as long as every line is shorter than 65536 bytes; at a line of 65536
  bytes or more it stops, and delivers neither that line nor any later one. The loop
  handles every line that the scanner delivers, whatever the lines before it did. A line
  that does not parse gives one log line; so does an unknown action; a send or a reply
  that fails gives its own effects and one log line. No line that is handled closes the
  connection or exits the process. \<open>handleSocketConn\<close> has the connection in the set
  while the loop runs; when the scanner stops it takes the connection out of the set and
  closes it, as its last step.
\<close>

theorem command_loop_continues:
  "((\<forall>l \<in> set sent. length l < 65536) \<longrightarrow> scanLines sent = map dropCR sent)
   \<and> ((\<forall>l \<in> set sent. length l < 65536) \<and> 65536 \<le> length long
        \<longrightarrow> scanLines (sent @ long # later) = map dropCR sent)
   \<and> socketLoop w (before @ line # after)
       = socketLoop w before @ socketCommand w line @ socketLoop w after
   \<and> (jsonUnmarshal w line = Inl err \<longrightarrow>
        socketCommand w line
          = [Stderr (''Failed to parse socket command: '' @ err @ newline)])
   \<and> (jsonUnmarshal w line = Inr cmd \<and> cmd_Action cmd \<noteq> ''send'' \<and> cmd_Action cmd \<noteq> ''reply''
        \<longrightarrow> socketCommand w line
              = [Stderr (''Unknown socket command: '' @ cmd_Action cmd @ newline)])
   \<and> (jsonUnmarshal w line = Inr cmd \<and> cmd_Action cmd = ''send''
        \<and> snd (sendMessage w (cmd_ChatJID cmd) (cmd_Text cmd)) = Some err
        \<longrightarrow> socketCommand w line
              = fst (sendMessage w (cmd_ChatJID cmd) (cmd_Text cmd))
                @ [Stderr (''Failed to send message: '' @ err @ newline)])
   \<and> (jsonUnmarshal w line = Inr cmd \<and> cmd_Action cmd = ''reply''
        \<and> snd (replyToMessage w (cmd_ChatJID cmd) (cmd_MessageID cmd) (cmd_SenderJID cmd)
                 (cmd_Text cmd)) = Some err
        \<longrightarrow> socketCommand w line
              = fst (replyToMessage w (cmd_ChatJID cmd) (cmd_MessageID cmd) (cmd_SenderJID cmd)
                       (cmd_Text cmd))
                @ [Stderr (''Failed to reply to message: '' @ err @ newline)])
   \<and> \<not> list_ex is_ConnClose (socketLoop w lines)
   \<and> \<not> list_ex is_Exit (socketLoop w lines)
   \<and> handleSocketConn a w c sent
       = (registerConn a c, unregisterConn (registerConn a c) c,
          socketLoop w (scanLines sent) @ [ConnClose c])
   \<and> c \<in> set (socketConns (registerConn a c))
   \<and> c \<notin> set (socketConns (unregisterConn (registerConn a c) c))"
proof -
  have k: "(\<forall>l \<in> set sent. length l < 65536) \<longrightarrow> scanLines sent = map dropCR sent"
    using scanLines_all_short[of sent] by (simp add: maxScanTokenSize_def)
  have e: "(\<forall>l \<in> set sent. length l < 65536) \<and> 65536 \<le> length long
        \<longrightarrow> scanLines (sent @ long # later) = map dropCR sent"
    using scanLines_stops[of sent long later] by (simp add: maxScanTokenSize_def)
  have l: "socketLoop w (before @ line # after)
     = socketLoop w before @ socketCommand w line @ socketLoop w after"
    by (simp add: socketLoop_append)
  have p: "jsonUnmarshal w line = Inl err \<longrightarrow>
        socketCommand w line = [Stderr (''Failed to parse socket command: '' @ err @ newline)]"
    by (simp add: socketCommand_def)
  have u: "jsonUnmarshal w line = Inr cmd \<and> cmd_Action cmd \<noteq> ''send'' \<and> cmd_Action cmd \<noteq> ''reply''
        \<longrightarrow> socketCommand w line
              = [Stderr (''Unknown socket command: '' @ cmd_Action cmd @ newline)]"
    by (simp add: socketCommand_def)
  have s: "jsonUnmarshal w line = Inr cmd \<and> cmd_Action cmd = ''send''
        \<and> snd (sendMessage w (cmd_ChatJID cmd) (cmd_Text cmd)) = Some err
        \<longrightarrow> socketCommand w line
              = fst (sendMessage w (cmd_ChatJID cmd) (cmd_Text cmd))
                @ [Stderr (''Failed to send message: '' @ err @ newline)]"
    by (cases "sendMessage w (cmd_ChatJID cmd) (cmd_Text cmd)") (simp add: socketCommand_def)
  have r: "jsonUnmarshal w line = Inr cmd \<and> cmd_Action cmd = ''reply''
        \<and> snd (replyToMessage w (cmd_ChatJID cmd) (cmd_MessageID cmd) (cmd_SenderJID cmd)
                 (cmd_Text cmd)) = Some err
        \<longrightarrow> socketCommand w line
              = fst (replyToMessage w (cmd_ChatJID cmd) (cmd_MessageID cmd) (cmd_SenderJID cmd)
                       (cmd_Text cmd))
                @ [Stderr (''Failed to reply to message: '' @ err @ newline)]"
    by (cases "replyToMessage w (cmd_ChatJID cmd) (cmd_MessageID cmd) (cmd_SenderJID cmd)
                 (cmd_Text cmd)") (simp add: socketCommand_def)
  have h: "handleSocketConn a w c sent
       = (registerConn a c, unregisterConn (registerConn a c) c,
          socketLoop w (scanLines sent) @ [ConnClose c])"
    by (simp add: handleSocketConn_def Let_def)
  have g: "c \<in> set (socketConns (registerConn a c))"
    "c \<notin> set (socketConns (unregisterConn (registerConn a c) c))"
    by (simp_all add: registerConn_def unregisterConn_def)
  from k e l p u s r h g socketLoop_effects[of w lines] show ?thesis by blast
qed

lemma example_lengths:
  "length line_junk < 65536" "length line_ping < 65536"
  "length (line_ping @ [CHR 0x0D]) < 65536"
  "length line_send_unreachable < 65536" "length line_reply_unreachable < 65536"
  "length line_send < 65536"
  by (simp_all add: line_junk_def line_ping_def line_send_unreachable_def
        line_reply_unreachable_def line_send_def dq_def)

lemma line_too_long_length: "65536 \<le> length line_too_long"
  by (simp add: line_too_long_def)

text \<open>
  The theorem at five lines from one peer, the second with a carriage return: a line that
  does not parse, an unknown action, a send and a reply that the client fails to deliver,
  and a send that succeeds. All five are handled, and the connection is closed after the
  last. And at three lines of which the second is too long: only the first is delivered.
\<close>

theorem command_loop_continues_witness:
  "scanLines [line_junk, line_ping @ [CHR 0x0D], line_send_unreachable,
              line_reply_unreachable, line_send]
     = [line_junk, line_ping, line_send_unreachable, line_reply_unreachable, line_send]
   \<and> snd (snd (handleSocketConn example_app example_world 9
        [line_junk, line_ping @ [CHR 0x0D], line_send_unreachable, line_reply_unreachable,
         line_send]))
      = [Stderr (''Failed to parse socket command: invalid character 'j' looking for beginning of object key string'' @ newline),
         Stderr (''Unknown socket command: ping'' @ newline),
         ClientSend (user_jid ''15550199'') (emptyMessage\<lparr>GetConversation := ''hi''\<rparr>),
         Stderr (''Failed to send message: send failed: websocket not connected'' @ newline),
         ClientSend (user_jid ''15550199'')
           (emptyMessage\<lparr>GetExtendedTextMessage :=
              Some \<lparr>GetContextInfo =
                      Some \<lparr>GetStanzaID = ''M1'',
                            GetParticipant = ''15550111@s.whatsapp.net'',
                            GetMentionedJID = []\<rparr>,
                    GetText = ''ok''\<rparr>\<rparr>),
         Stderr (''Failed to reply to message: reply failed: websocket not connected''
                 @ newline),
         ClientSend (user_jid ''15550111'') (emptyMessage\<lparr>GetConversation := ''hi''\<rparr>),
         Stdout (''Sent message to 15550111@s.whatsapp.net'' @ newline),
         ConnClose 9]
   \<and> socketConns (fst (handleSocketConn example_app example_world 9
        [line_junk, line_ping @ [CHR 0x0D], line_send_unreachable, line_reply_unreachable,
         line_send])) = [7, 9]
   \<and> socketConns (fst (snd (handleSocketConn example_app example_world 9
        [line_junk, line_ping @ [CHR 0x0D], line_send_unreachable, line_reply_unreachable,
         line_send]))) = [7]
   \<and> scanLines [line_junk, line_too_long, line_send] = [line_junk]"
proof -
  let ?sent = "[line_junk, line_ping @ [CHR 0x0D], line_send_unreachable,
                line_reply_unreachable, line_send]"
  let ?ping = "\<lparr>cmd_Action = ''ping'', cmd_ChatJID = [], cmd_MessageID = [],
                 cmd_SenderJID = [], cmd_Text = []\<rparr>"
  let ?send = "\<lparr>cmd_Action = ''send'', cmd_ChatJID = ''15550199@s.whatsapp.net'',
                 cmd_MessageID = [], cmd_SenderJID = [], cmd_Text = ''hi''\<rparr>"
  let ?reply = "\<lparr>cmd_Action = ''reply'', cmd_ChatJID = ''15550199@s.whatsapp.net'',
                 cmd_MessageID = ''M1'', cmd_SenderJID = ''15550111@s.whatsapp.net'',
                 cmd_Text = ''ok''\<rparr>"
  have short: "\<forall>l \<in> set ?sent. length l < 65536"
    using example_lengths by simp
  have cr: "map dropCR ?sent
      = [line_junk, line_ping, line_send_unreachable, line_reply_unreachable, line_send]"
    by code_simp
  have j1: "jsonUnmarshal example_world line_junk
      = Inl ''invalid character 'j' looking for beginning of object key string''"
    by code_simp
  have j2: "jsonUnmarshal example_world line_ping = Inr ?ping"
    by code_simp
  have j3: "jsonUnmarshal example_world line_send_unreachable = Inr ?send"
    by code_simp
  have j4: "jsonUnmarshal example_world line_reply_unreachable = Inr ?reply"
    by code_simp
  have s3: "sendMessage example_world ''15550199@s.whatsapp.net'' ''hi''
     = ([ClientSend (user_jid ''15550199'') (emptyMessage\<lparr>GetConversation := ''hi''\<rparr>)],
        Some ''send failed: websocket not connected'')"
    by code_simp
  have s4: "replyToMessage example_world ''15550199@s.whatsapp.net'' ''M1''
       ''15550111@s.whatsapp.net'' ''ok''
     = ([ClientSend (user_jid ''15550199'')
           (emptyMessage\<lparr>GetExtendedTextMessage :=
              Some \<lparr>GetContextInfo =
                      Some \<lparr>GetStanzaID = ''M1'',
                            GetParticipant = ''15550111@s.whatsapp.net'',
                            GetMentionedJID = []\<rparr>,
                    GetText = ''ok''\<rparr>\<rparr>)],
        Some ''reply failed: websocket not connected'')"
    by code_simp
  have s5: "socketCommand example_world line_send
     = [ClientSend (user_jid ''15550111'') (emptyMessage\<lparr>GetConversation := ''hi''\<rparr>),
         Stdout (''Sent message to 15550111@s.whatsapp.net'' @ newline)]"
    by code_simp
  have sc: "scanLines ?sent
      = [line_junk, line_ping, line_send_unreachable, line_reply_unreachable, line_send]"
    using command_loop_continues[where sent="?sent"] short cr by simp
  have c1: "socketCommand example_world line_junk
     = [Stderr (''Failed to parse socket command: invalid character 'j' looking for beginning of object key string'' @ newline)]"
    using command_loop_continues[where w=example_world and line=line_junk
            and err="''invalid character 'j' looking for beginning of object key string''"] j1
    by simp
  have c2: "socketCommand example_world line_ping
     = [Stderr (''Unknown socket command: ping'' @ newline)]"
    using command_loop_continues[where w=example_world and line=line_ping and cmd="?ping"] j2
    by simp
  have c3: "socketCommand example_world line_send_unreachable
     = [ClientSend (user_jid ''15550199'') (emptyMessage\<lparr>GetConversation := ''hi''\<rparr>),
        Stderr (''Failed to send message: send failed: websocket not connected'' @ newline)]"
    using command_loop_continues[where w=example_world and line=line_send_unreachable
            and err="''send failed: websocket not connected''" and cmd="?send"] j3 s3
    by simp
  have c4: "socketCommand example_world line_reply_unreachable
     = [ClientSend (user_jid ''15550199'')
           (emptyMessage\<lparr>GetExtendedTextMessage :=
              Some \<lparr>GetContextInfo =
                      Some \<lparr>GetStanzaID = ''M1'',
                            GetParticipant = ''15550111@s.whatsapp.net'',
                            GetMentionedJID = []\<rparr>,
                    GetText = ''ok''\<rparr>\<rparr>),
         Stderr (''Failed to reply to message: reply failed: websocket not connected''
                 @ newline)]"
    using command_loop_continues[where w=example_world and line=line_reply_unreachable
            and err="''reply failed: websocket not connected''" and cmd="?reply"] j4 s4
    by simp
  have loop: "socketLoop example_world
        [line_junk, line_ping, line_send_unreachable, line_reply_unreachable, line_send]
      = socketCommand example_world line_junk @ socketCommand example_world line_ping
        @ socketCommand example_world line_send_unreachable
        @ socketCommand example_world line_reply_unreachable
        @ socketCommand example_world line_send"
    by simp
  have conns: "socketConns (registerConn example_app 9) = [7, 9]"
    "socketConns (unregisterConn (registerConn example_app 9) 9) = [7]"
    by (simp_all add: registerConn_def unregisterConn_def example_app_def)
  from command_loop_continues[where w=example_world and a=example_app and c=9
         and sent="?sent"]
  have hs: "handleSocketConn example_app example_world 9 ?sent
       = (registerConn example_app 9, unregisterConn (registerConn example_app 9) 9,
          socketLoop example_world (scanLines ?sent) @ [ConnClose 9])"
    by simp
  have stop: "scanLines [line_junk, line_too_long, line_send] = [line_junk]"
    using command_loop_continues[where sent="[line_junk]" and long=line_too_long
        and later="[line_send]"]
      example_lengths line_too_long_length
    by (simp add: dropCR_def line_junk_def)
  show ?thesis
    unfolding hs sc loop c1 c2 c3 c4 s5 using conns stop by simp
qed

text \<open>
  Claim C9 as worded fails at a peer that sends a well-formed command of more than 64 KiB
  and then a second command, and keeps the connection open: the scanner stops at the
  first line, nothing is logged, the connection is taken out of the set and closed, and
  the second command, which would have been sent, is never handled.
\<close>

theorem command_loop_continues_counterexample:
  "65536 \<le> length line_too_long
   \<and> handleSocketConn example_app example_world 9 [line_too_long, line_send]
       = (registerConn example_app 9, unregisterConn (registerConn example_app 9) 9,
          [ConnClose 9])
   \<and> 9 \<notin> set (socketConns (unregisterConn (registerConn example_app 9) 9))
   \<and> socketCommand example_world line_send
       = [ClientSend (user_jid ''15550111'') (emptyMessage\<lparr>GetConversation := ''hi''\<rparr>),
          Stdout (''Sent message to 15550111@s.whatsapp.net'' @ newline)]"
proof -
  have s5: "socketCommand example_world line_send
     = [ClientSend (user_jid ''15550111'') (emptyMessage\<lparr>GetConversation := ''hi''\<rparr>),
         Stdout (''Sent message to 15550111@s.whatsapp.net'' @ newline)]"
    by code_simp
  have l: "65536 \<le> length line_too_long" by (rule line_too_long_length)
  then have "scanLines [line_too_long, line_send] = []"
    by (simp add: maxScanTokenSize_def)
  with l s5 show ?thesis
    by (simp add: handleSocketConn_def Let_def registerConn_def unregisterConn_def)
qed

end
